theory Spec2Isabelle
  imports Main "HOL-Library.Sublist"
begin

section \<open>Data model (models/quiz.go, handlers)\<close>

text \<open>
  Go strings are byte sequences, so a string is a \<open>char list\<close>. Go's \<open>int\<close> is modelled
  as \<open>int\<close>: the code compares identifiers with zero and prints them, and does no
  arithmetic on them. A pointer that may be nil (\<open>*QuestionData\<close>) is an \<open>option\<close>; a nil
  slice and an empty slice are both the empty list.
\<close>

record QuestionData =
  ID :: string
  Text :: string
  Type :: string
  Options :: "string list"
  CorrectAnswer :: string
  Explanation :: string
  Difficulty :: string
  BasedOnNotes :: "int list"

record Message =
  Role :: string
  Content :: string
  Question :: "QuestionData option"

text \<open>
  \<open>models.Note\<close> is read through two fields only (\<open>note.ID\<close>, \<open>note.Content\<close> in
  \<open>getNotesContent\<close>); the record carries those two.
\<close>

record Note =
  note_ID :: int
  note_Content :: string

text \<open>The anonymous struct \<open>llmResponse\<close> that \<open>parseLLMResponse\<close> decodes into.\<close>

record llmResponse =
  llm_Question :: string
  llm_Type :: string
  llm_Options :: "string list"
  llm_CorrectAnswer :: string
  llm_Explanation :: string
  llm_Difficulty :: string

record QuizRequest =
  req_NoteIds :: "int list"
  req_Conversation :: "Message list"
  req_Difficulty :: string
  req_QuestionType :: string

record QuizResponseData =
  Conversation :: "Message list"

record QuizMetadata =
  GeneratedAt :: string
  TokensUsed :: int
  ProcessingTimeMs :: int

record QuizResponse =
  Success :: bool
  Data :: QuizResponseData
  Metadata :: QuizMetadata

text \<open>
  What a handler writes: the status code and the JSON body, which is either a
  \<open>QuizResponse\<close> or the map \<open>{"success": false, "error": message}\<close> of
  \<open>writeErrorResponse\<close>.
\<close>

datatype body = QuizBody QuizResponse | ErrorBody string

record HTTPResponse =
  status :: nat
  body :: body

subsection \<open>Errors and panics\<close>

text \<open>
  Every error value of this code is built by \<open>fmt.Errorf\<close> and is read only through
  its message, so an error is its message. A function that can also panic returns a
  \<open>failure\<close>: the error it returns, or the run-time panic of a slice expression with
  its two bounds.
\<close>

type_synonym err = string

datatype failure = Err err | SliceBoundsPanic int int

subsection \<open>Collaborators\<close>

text \<open>
  The note repository (\<open>db.NoteRepository\<close>), the model client, the JSON decoder and
  the lowercasing of package \<open>strings\<close> are outside this code; each is a parameter. A repository is the pair of its two read
  operations; the client is the outcome of \<open>llms.GenerateFromSinglePrompt\<close> on a prompt
  at temperature 0.9; the decoder is the outcome of \<open>json.Unmarshal\<close> of a byte string
  into a zero \<open>llmResponse\<close>.
\<close>

record NoteRepository =
  repo_GetNoteByID :: "int \<Rightarrow> err + Note"
  repo_GetAllNotes :: "err + Note list"

record NoteService =
  repo :: NoteRepository

record QuizService =
  noteService :: NoteService
  llmClient :: "string \<Rightarrow> err + string"

record QuizHandler =
  service :: QuizService

type_synonym unmarshal = "string \<Rightarrow> err + llmResponse"

section \<open>Strings (package strings, fmt)\<close>

text \<open>
  \<open>strings.ToLower\<close> maps every rune of the text to its Unicode lower case; the
  table is outside this code, so the functions that call it take the lowercasing as a
  parameter \<open>toLower\<close>. \<open>lowerASCII\<close> is the lowercasing of the ASCII letters alone: the
  bytes \<open>A\<close> to \<open>Z\<close> move to \<open>a\<close> to \<open>z\<close>, every other byte stays. It agrees with
  \<open>strings.ToLower\<close> on ASCII text, and serves as the parameter on the ASCII examples
  and for the keys of the reference decoder.
\<close>

definition lowerByte :: "char \<Rightarrow> char" where
  "lowerByte c =
     (let n = (of_char c :: nat) in if 65 \<le> n \<and> n \<le> 90 then char_of (n + 32) else c)"

definition lowerASCII :: "string \<Rightarrow> string" where
  "lowerASCII s = map lowerByte s"

text \<open>
  \<open>strings.Index\<close> and \<open>strings.LastIndex\<close>: the byte offset of the first (last)
  occurrence of \<open>substr\<close>, or \<open>-1\<close>.
\<close>

fun Index :: "string \<Rightarrow> string \<Rightarrow> int" where
  "Index [] substr = (if substr = [] then 0 else -1)"
| "Index (c # s) substr =
     (if prefix substr (c # s) then 0
      else (let i = Index s substr in if i = -1 then -1 else i + 1))"

fun LastIndex :: "string \<Rightarrow> string \<Rightarrow> int" where
  "LastIndex [] substr = (if substr = [] then 0 else -1)"
| "LastIndex (c # s) substr =
     (let i = LastIndex s substr in
      if i \<noteq> -1 then i + 1 else if prefix substr (c # s) then 0 else -1)"

definition Contains :: "string \<Rightarrow> string \<Rightarrow> bool" where
  "Contains s substr = (Index s substr \<ge> 0)"

text \<open>
  \<open>strings.TrimSpace\<close> on ASCII: tab, line feed, vertical tab, form feed, carriage
  return and space are cut from both ends.
\<close>

definition isSpace :: "char \<Rightarrow> bool" where
  "isSpace c = (c \<in> set [CHR 0x09, CHR 0x0A, CHR 0x0B, CHR 0x0C, CHR 0x0D, CHR 0x20])"

definition TrimSpace :: "string \<Rightarrow> string" where
  "TrimSpace s = rev (dropWhile isSpace (rev (dropWhile isSpace s)))"

text \<open>The verb \<open>%d\<close> of \<open>fmt\<close> on an \<open>int\<close>: the decimal digits, with a sign when negative.\<close>

fun digits :: "nat \<Rightarrow> string" where
  "digits n =
     (if n < 10 then [char_of (48 + n)] else digits (n div 10) @ [char_of (48 + n mod 10)])"

definition Itoa :: "int \<Rightarrow> string" where
  "Itoa i = (if i < 0 then CHR ''-'' # digits (nat (- i)) else digits (nat i))"

text \<open>
  The slice expression \<open>s[lo:hi]\<close> on a string: it panics unless
  \<open>0 \<le> lo \<le> hi \<le> len(s)\<close>.
\<close>

definition slice :: "string \<Rightarrow> int \<Rightarrow> int \<Rightarrow> failure + string" where
  "slice s lo hi =
     (if 0 \<le> lo \<and> lo \<le> hi \<and> hi \<le> int (length s)
      then Inr (take (nat (hi - lo)) (drop (nat lo) s))
      else Inl (SliceBoundsPanic lo hi))"

section \<open>A reference decoder (package encoding/json)\<close>

text \<open>
  \<open>parseLLMResponse\<close> takes its decoder as a parameter, and the general theorems hold
  for every decoder. To run the extractor on concrete responses, this section gives one
  decoder that follows \<open>json.Unmarshal\<close> into the struct \<open>llmResponse\<close>: the input is
  checked against the JSON grammar as a whole, then the members of the object are
  stored in order. A key selects a field by its name without regard to ASCII case, an
  unknown key is skipped, \<open>null\<close> leaves a string as it is and empties the slice, and a
  value of the wrong kind makes the call fail. Escapes in strings are decoded, \<open>\u\<close>
  escapes to UTF-8 with surrogate pairs joined. Not modelled: the text of the decoder's
  errors, the replacement of invalid UTF-8 in the input and the folding of the two
  non-ASCII runes that Go equates with \<open>k\<close> and \<open>s\<close>. The fuel of the parser is the length
  of the input plus one; every call consumes a byte.
\<close>

datatype json =
  JNull | JBool bool | JNumber string | JString string
  | JArray "json list" | JObject "(string \<times> json) list"

definition isJSONSpace :: "char \<Rightarrow> bool" where
  "isJSONSpace c = (c \<in> set [CHR 0x20, CHR 0x09, CHR 0x0D, CHR 0x0A])"

definition skipSpace :: "string \<Rightarrow> string" where
  "skipSpace s = dropWhile isJSONSpace s"

definition isDigit :: "char \<Rightarrow> bool" where
  "isDigit c = (let n = (of_char c :: nat) in 48 \<le> n \<and> n \<le> 57)"

definition hexVal :: "char \<Rightarrow> nat option" where
  "hexVal c =
     (let n = (of_char c :: nat)
      in if 48 \<le> n \<and> n \<le> 57 then Some (n - 48)
         else if 97 \<le> n \<and> n \<le> 102 then Some (n - 87)
         else if 65 \<le> n \<and> n \<le> 70 then Some (n - 55)
         else None)"

definition getu4 :: "string \<Rightarrow> nat option" where
  "getu4 s =
     (case s of
        b # u # h1 # h2 # h3 # h4 # rest \<Rightarrow>
          if b = CHR 0x5C \<and> u = CHR ''u'' then
            (case (hexVal h1, hexVal h2, hexVal h3, hexVal h4) of
               (Some a, Some b, Some c, Some d) \<Rightarrow> Some (((a * 16 + b) * 16 + c) * 16 + d)
             | _ \<Rightarrow> None)
          else None
      | _ \<Rightarrow> None)"

definition EncodeRune :: "nat \<Rightarrow> string" where
  "EncodeRune r =
     (if r < 128 then [char_of r]
      else if r < 2048 then [char_of (192 + r div 64), char_of (128 + r mod 64)]
      else if r < 65536 then
        [char_of (224 + r div 4096), char_of (128 + (r div 64) mod 64), char_of (128 + r mod 64)]
      else
        [char_of (240 + r div 262144), char_of (128 + (r div 4096) mod 64),
         char_of (128 + (r div 64) mod 64), char_of (128 + r mod 64)])"

definition escapeByte :: "char \<Rightarrow> char option" where
  "escapeByte c =
     (if c = CHR 0x22 \<or> c = CHR 0x5C \<or> c = CHR ''/'' then Some c
      else if c = CHR ''b'' then Some (CHR 0x08)
      else if c = CHR ''f'' then Some (CHR 0x0C)
      else if c = CHR ''n'' then Some (CHR 0x0A)
      else if c = CHR ''r'' then Some (CHR 0x0D)
      else if c = CHR ''t'' then Some (CHR 0x09)
      else None)"

fun scanString :: "string \<Rightarrow> string \<Rightarrow> (string \<times> string) option" where
  "scanString [] out = None"
| "scanString (c # s) out =
     (if c = CHR 0x22 then Some (out, s)
      else if (of_char c :: nat) < 32 then None
      else if c \<noteq> CHR 0x5C then scanString s (out @ [c])
      else (case s of
              [] \<Rightarrow> None
            | e # s1 \<Rightarrow>
                if e = CHR ''u'' then
                  (case getu4 (c # s) of
                     None \<Rightarrow> None
                   | Some rr \<Rightarrow>
                       (case s1 of
                          h1 # h2 # h3 # h4 # s2 \<Rightarrow>
                            if 55296 \<le> rr \<and> rr < 57344 then
                              (case getu4 s2 of
                                 None \<Rightarrow> scanString s2 (out @ EncodeRune 65533)
                               | Some rr1 \<Rightarrow>
                                   (case s2 of
                                      b' # u' # g1 # g2 # g3 # g4 # s3 \<Rightarrow>
                                        if rr < 56320 \<and> 56320 \<le> rr1 \<and> rr1 < 57344 then
                                          scanString s3
                                            (out @ EncodeRune
                                               ((rr - 55296) * 1024 + (rr1 - 56320) + 65536))
                                        else scanString s2 (out @ EncodeRune 65533)
                                    | _ \<Rightarrow> None))
                            else scanString s2 (out @ EncodeRune rr)
                        | _ \<Rightarrow> None))
                else (case escapeByte e of
                        None \<Rightarrow> None
                      | Some b \<Rightarrow> scanString s1 (out @ [b]))))"

definition scanDigits :: "string \<Rightarrow> (string \<times> string) option" where
  "scanDigits s =
     (let ds = takeWhile isDigit s in if ds = [] then None else Some (ds, dropWhile isDigit s))"

definition scanNumber :: "string \<Rightarrow> (string \<times> string) option" where
  "scanNumber s =
     (let (sign, s1) = (case s of c # r \<Rightarrow> if c = CHR ''-'' then ([c], r) else ([], s) | [] \<Rightarrow> ([], s))
      in case (case s1 of
                 c # r \<Rightarrow> if c = CHR ''0'' then Some ([c], r) else scanDigits s1
               | [] \<Rightarrow> None) of
           None \<Rightarrow> None
         | Some (ip, s2) \<Rightarrow>
             (case (case s2 of
                      c # r \<Rightarrow>
                        if c = CHR ''.'' then
                          (case scanDigits r of None \<Rightarrow> None | Some (fp, r') \<Rightarrow> Some (c # fp, r'))
                        else Some ([], s2)
                    | [] \<Rightarrow> Some ([], s2)) of
                None \<Rightarrow> None
              | Some (fp, s3) \<Rightarrow>
                  (case (case s3 of
                           c # r \<Rightarrow>
                             if c = CHR ''e'' \<or> c = CHR ''E'' then
                               (let (es, r1) =
                                      (case r of
                                         d # r' \<Rightarrow>
                                           if d = CHR ''+'' \<or> d = CHR ''-'' then ([d], r')
                                           else ([], r)
                                       | [] \<Rightarrow> ([], r))
                                in case scanDigits r1 of
                                     None \<Rightarrow> None
                                   | Some (ep, r2) \<Rightarrow> Some (c # es @ ep, r2))
                             else Some ([], s3)
                         | [] \<Rightarrow> Some ([], s3)) of
                     None \<Rightarrow> None
                   | Some (ep, s4) \<Rightarrow> Some (sign @ ip @ fp @ ep, s4))))"

fun parseValue :: "nat \<Rightarrow> string \<Rightarrow> (json \<times> string) option"
  and parseElements :: "nat \<Rightarrow> string \<Rightarrow> json list \<Rightarrow> (json \<times> string) option"
  and parseMembers :: "nat \<Rightarrow> string \<Rightarrow> (string \<times> json) list \<Rightarrow> (json \<times> string) option"
  where
  "parseValue 0 s = None"
| "parseValue (Suc n) s =
     (case skipSpace s of
        [] \<Rightarrow> None
      | c # r \<Rightarrow>
          if c = CHR ''{'' then
            (case skipSpace r of
               [] \<Rightarrow> None
             | d # r' \<Rightarrow> if d = CHR ''}'' then Some (JObject [], r') else parseMembers n (d # r') [])
          else if c = CHR ''['' then
            (case skipSpace r of
               [] \<Rightarrow> None
             | d # r' \<Rightarrow> if d = CHR '']'' then Some (JArray [], r') else parseElements n (d # r') [])
          else if c = CHR 0x22 then
            (case scanString r [] of
               None \<Rightarrow> None
             | Some (str, r') \<Rightarrow> Some (JString str, r'))
          else if c = CHR ''-'' \<or> isDigit c then
            (case scanNumber (c # r) of
               None \<Rightarrow> None
             | Some (num, r') \<Rightarrow> Some (JNumber num, r'))
          else if prefix ''true'' (c # r) then Some (JBool True, drop 4 (c # r))
          else if prefix ''false'' (c # r) then Some (JBool False, drop 5 (c # r))
          else if prefix ''null'' (c # r) then Some (JNull, drop 4 (c # r))
          else None)"
| "parseElements 0 s acc = None"
| "parseElements (Suc n) s acc =
     (case parseValue n s of
        None \<Rightarrow> None
      | Some (v, r) \<Rightarrow>
          (case skipSpace r of
             [] \<Rightarrow> None
           | c # r' \<Rightarrow>
               if c = CHR '','' then parseElements n r' (acc @ [v])
               else if c = CHR '']'' then Some (JArray (acc @ [v]), r')
               else None))"
| "parseMembers 0 s acc = None"
| "parseMembers (Suc n) s acc =
     (case skipSpace s of
        [] \<Rightarrow> None
      | q # r \<Rightarrow>
          if q \<noteq> CHR 0x22 then None
          else (case scanString r [] of
                  None \<Rightarrow> None
                | Some (key, r1) \<Rightarrow>
                    (case skipSpace r1 of
                       [] \<Rightarrow> None
                     | c1 # r2 \<Rightarrow>
                         if c1 \<noteq> CHR '':'' then None
                         else (case parseValue n r2 of
                                 None \<Rightarrow> None
                               | Some (v, r3) \<Rightarrow>
                                   (case skipSpace r3 of
                                      [] \<Rightarrow> None
                                    | c3 # r4 \<Rightarrow>
                                        if c3 = CHR '','' then parseMembers n r4 (acc @ [(key, v)])
                                        else if c3 = CHR ''}'' then
                                          Some (JObject (acc @ [(key, v)]), r4)
                                        else None)))))"

definition parseJSON :: "string \<Rightarrow> json option" where
  "parseJSON s =
     (case parseValue (Suc (length s)) s of
        None \<Rightarrow> None
      | Some (v, r) \<Rightarrow> if skipSpace r = [] then Some v else None)"


definition zeroResponse :: llmResponse where
  "zeroResponse =
     \<lparr>llm_Question = [], llm_Type = [], llm_Options = [], llm_CorrectAnswer = [],
      llm_Explanation = [], llm_Difficulty = []\<rparr>"

fun storeString :: "json \<Rightarrow> string \<Rightarrow> string \<times> bool" where
  "storeString (JString s) old = (s, True)"
| "storeString JNull old = (old, True)"
| "storeString v old = (old, False)"

fun storeStrings :: "json \<Rightarrow> string list \<Rightarrow> string list \<times> bool" where
  "storeStrings (JArray vs) old =
     (map (\<lambda>v. fst (storeString v [])) vs, list_all (\<lambda>v. snd (storeString v [])) vs)"
| "storeStrings JNull old = ([], True)"
| "storeStrings v old = (old, False)"

definition storeField :: "string \<times> json \<Rightarrow> llmResponse \<times> bool \<Rightarrow> llmResponse \<times> bool" where
  "storeField kv st =
     (let key = lowerASCII (fst kv); v = snd kv; r = fst st; ok = snd st
      in if key = ''question'' then
           (let (x, b) = storeString v (llm_Question r) in (r\<lparr>llm_Question := x\<rparr>, ok \<and> b))
         else if key = ''type'' then
           (let (x, b) = storeString v (llm_Type r) in (r\<lparr>llm_Type := x\<rparr>, ok \<and> b))
         else if key = ''options'' then
           (let (x, b) = storeStrings v (llm_Options r) in (r\<lparr>llm_Options := x\<rparr>, ok \<and> b))
         else if key = ''correctanswer'' then
           (let (x, b) = storeString v (llm_CorrectAnswer r)
            in (r\<lparr>llm_CorrectAnswer := x\<rparr>, ok \<and> b))
         else if key = ''explanation'' then
           (let (x, b) = storeString v (llm_Explanation r) in (r\<lparr>llm_Explanation := x\<rparr>, ok \<and> b))
         else if key = ''difficulty'' then
           (let (x, b) = storeString v (llm_Difficulty r) in (r\<lparr>llm_Difficulty := x\<rparr>, ok \<and> b))
         else (r, ok))"

definition json_Unmarshal :: "string \<Rightarrow> err + llmResponse" where
  "json_Unmarshal data =
     (case parseJSON data of
        None \<Rightarrow> Inl ''json: syntax error''
      | Some JNull \<Rightarrow> Inr zeroResponse
      | Some (JObject members) \<Rightarrow>
          (let (r, ok) = foldl (\<lambda>st kv. storeField kv st) (zeroResponse, True) members
           in if ok then Inr r else Inl ''json: cannot unmarshal value into Go struct field'')
      | Some v \<Rightarrow> Inl ''json: cannot unmarshal value into Go struct'')"

section \<open>NoteService (services/noteService.go)\<close>

definition GetNoteByID :: "NoteService \<Rightarrow> int \<Rightarrow> err + Note" where
  "GetNoteByID s id' =
     (if id' \<le> 0 then Inl (''invalid note ID: '' @ Itoa id')
      else (case repo_GetNoteByID (repo s) id' of
              Inl e \<Rightarrow> Inl e
            | Inr note \<Rightarrow> Inr note))"

definition GetAllNotes :: "NoteService \<Rightarrow> err + Note list" where
  "GetAllNotes s =
     (case repo_GetAllNotes (repo s) of
        Inl e \<Rightarrow> Inl (''failed to get notes: '' @ e)
      | Inr notes \<Rightarrow> Inr notes)"

section \<open>QuizService (services/quizService.go)\<close>

definition SYSTEM_PROMPT :: string where
  "SYSTEM_PROMPT =
     ''You are a quiz generator AI. Create educational quiz questions based on the provided study notes. Generate questions that test comprehension, application, and analysis of the material. Respond with valid JSON in this exact format:''
     @ [CHR 0x0A] @ ''{'' @ [CHR 0x0A]
     @ ''  \"question\": \"The question text here\",'' @ [CHR 0x0A]
     @ ''  \"type\": \"multiple-choice\",'' @ [CHR 0x0A]
     @ ''  \"options\": [\"A) Option 1\", \"B) Option 2\", \"C) Option 3\", \"D) Option 4\"],'' @ [CHR 0x0A]
     @ ''  \"correctAnswer\": \"A\",'' @ [CHR 0x0A]
     @ ''  \"explanation\": \"Explanation of why this is correct\",'' @ [CHR 0x0A]
     @ ''  \"difficulty\": \"medium\"'' @ [CHR 0x0A]
     @ ''}'' @ [CHR 0x0A, CHR 0x0A]
     @ ''For essay questions, omit the options and correctAnswer fields. Valid difficulty levels are: easy, medium, hard. Valid types are: multiple-choice, essay, true-false.''"

text \<open>\<open>fmt.Sprintf(USER_PROMPT_TEMPLATE, notesContent, difficulty, questionType)\<close>.\<close>

definition USER_PROMPT :: "string \<Rightarrow> string \<Rightarrow> string \<Rightarrow> string" where
  "USER_PROMPT notesContent difficulty questionType =
     ''Based on these study notes: '' @ [CHR 0x0A, CHR 0x0A] @ notesContent @ [CHR 0x0A, CHR 0x0A]
     @ ''Generate a quiz question. Make it '' @ difficulty @ '' difficulty and format it as ''
     @ questionType
     @ ''. The question should test understanding of the key concepts from the notes.''"

text \<open>
  The loop of \<open>containsKeywords\<close> returns at the first keyword found. \<open>toLower\<close> is
  \<open>strings.ToLower\<close>.
\<close>

fun containsKeywords :: "(string \<Rightarrow> string) \<Rightarrow> string \<Rightarrow> string list \<Rightarrow> bool" where
  "containsKeywords toLower text [] = False"
| "containsKeywords toLower text (keyword # keywords) =
     (if Contains (toLower text) (toLower keyword) then True
      else containsKeywords toLower text keywords)"

definition extractDifficulty :: "(string \<Rightarrow> string) \<Rightarrow> string \<Rightarrow> string" where
  "extractDifficulty toLower message =
     (if containsKeywords toLower message [''easy'', ''simple'', ''basic'', ''beginner'']
      then ''easy''
      else if containsKeywords toLower message
                [''hard'', ''difficult'', ''challenging'', ''advanced'']
      then ''hard''
      else ''medium'')"

definition extractQuestionType :: "(string \<Rightarrow> string) \<Rightarrow> string \<Rightarrow> string" where
  "extractQuestionType toLower message =
     (if containsKeywords toLower message [''essay'', ''explain'', ''describe'', ''discuss'']
      then ''essay''
      else if containsKeywords toLower message [''true'', ''false'', ''yes'', ''no'']
      then ''true-false''
      else ''multiple-choice'')"

text \<open>
  The first loop of \<open>getNotesContent\<close>: each identifier is looked up in turn; a failed
  lookup is skipped (\<open>continue\<close>), a note found is appended to \<open>notes\<close>.
\<close>

fun fetchNotes :: "NoteService \<Rightarrow> int list \<Rightarrow> Note list \<Rightarrow> Note list" where
  "fetchNotes ns [] notes = notes"
| "fetchNotes ns (id' # ids) notes =
     (case GetNoteByID ns id' of
        Inl noteErr \<Rightarrow> fetchNotes ns ids notes
      | Inr note \<Rightarrow> fetchNotes ns ids (notes @ [note]))"

text \<open>
  The second loop: the builder receives the separator before every note but the first,
  then the entry \<open>Note <ID>: <Content>\<close>. The index \<open>i\<close> counts the notes written.
\<close>

definition noteEntry :: "Note \<Rightarrow> string" where
  "noteEntry note = ''Note '' @ Itoa (note_ID note) @ '': '' @ note_Content note"

definition separator :: string where
  "separator = [CHR 0x0A, CHR 0x0A] @ ''---'' @ [CHR 0x0A, CHR 0x0A]"

fun combineNotes :: "Note list \<Rightarrow> nat \<Rightarrow> string \<Rightarrow> string" where
  "combineNotes [] i contentBuilder = contentBuilder"
| "combineNotes (note # notes) i contentBuilder =
     combineNotes notes (i + 1)
       ((if i > 0 then contentBuilder @ separator else contentBuilder) @ noteEntry note)"

definition getNotesContent :: "QuizService \<Rightarrow> int list \<Rightarrow> err + string" where
  "getNotesContent s noteIds =
     (case (if length noteIds = 0 then GetAllNotes (noteService s)
            else Inr (fetchNotes (noteService s) noteIds [])) of
        Inl e \<Rightarrow> Inl e
      | Inr notes \<Rightarrow>
          if length notes = 0 then Inl ''no notes found''
          else Inr (combineNotes notes 0 []))"

text \<open>
  \<open>parseLLMResponse\<close>. \<open>now\<close> is the reading \<open>time.Now().Unix()\<close> of the clock, in
  seconds. The slice expression is evaluated as Go does, so a start beyond the end is a
  panic.
\<close>

definition parseLLMResponse ::
  "unmarshal \<Rightarrow> int \<Rightarrow> string \<Rightarrow> int list \<Rightarrow> failure + QuestionData" where
  "parseLLMResponse unm now response noteIds =
     (let jsonStart = Index response ''{'';
          jsonEnd = LastIndex response ''}'' + 1
      in if jsonStart = -1 \<or> jsonEnd = 0 then Inl (Err ''no valid JSON found in response'')
         else (case slice response jsonStart jsonEnd of
                 Inl p \<Rightarrow> Inl p
               | Inr jsonResponse \<Rightarrow>
                   (case unm jsonResponse of
                      Inl e \<Rightarrow> Inl (Err (''failed to parse JSON: '' @ e))
                    | Inr r \<Rightarrow>
                        if llm_Question r = [] then Inl (Err ''question field is required'')
                        else Inr \<lparr>ID = ''q_llm_'' @ Itoa now,
                                  Text = llm_Question r,
                                  Type = llm_Type r,
                                  Options = llm_Options r,
                                  CorrectAnswer = llm_CorrectAnswer r,
                                  Explanation = llm_Explanation r,
                                  Difficulty = llm_Difficulty r,
                                  BasedOnNotes = noteIds\<rparr>)))"

definition generateQuizWithLLM ::
  "QuizService \<Rightarrow> unmarshal \<Rightarrow> int \<Rightarrow> string \<Rightarrow> string \<Rightarrow> string \<Rightarrow> int list
   \<Rightarrow> failure + Message" where
  "generateQuizWithLLM s unm now notesContent difficulty questionType noteIds =
     (let userPrompt = USER_PROMPT notesContent difficulty questionType
      in case llmClient s (SYSTEM_PROMPT @ [CHR 0x0A, CHR 0x0A] @ userPrompt) of
           Inl e \<Rightarrow> Inl (Err (''LLM generation failed: '' @ e))
         | Inr completion \<Rightarrow>
             (case parseLLMResponse unm now completion noteIds of
                Inl (Err e) \<Rightarrow> Inl (Err (''failed to parse LLM response: '' @ e))
              | Inl (SliceBoundsPanic lo hi) \<Rightarrow> Inl (SliceBoundsPanic lo hi)
              | Inr questionData \<Rightarrow>
                  Inr \<lparr>Role = ''assistant'',
                       Content = ''Here's a quiz question based on your notes:'',
                       Question = Some questionData\<rparr>))"

definition GenerateQuiz ::
  "QuizService \<Rightarrow> unmarshal \<Rightarrow> (string \<Rightarrow> string) \<Rightarrow> int \<Rightarrow> Message list \<Rightarrow> int list
   \<Rightarrow> failure + Message" where
  "GenerateQuiz s unm toLower now conversation noteIds =
     (if length conversation = 0 then Inl (Err ''conversation cannot be empty'')
      else
        let lastMessage = conversation ! (length conversation - 1)
        in if Role lastMessage \<noteq> ''user'' then Inl (Err ''last message must be from user'')
           else (case getNotesContent s noteIds of
                   Inl e \<Rightarrow> Inl (Err (''failed to retrieve notes: '' @ e))
                 | Inr notesContent \<Rightarrow>
                     (let difficulty = extractDifficulty toLower (Content lastMessage);
                          questionType = extractQuestionType toLower (Content lastMessage)
                      in case generateQuizWithLLM s unm now notesContent difficulty
                                questionType noteIds of
                           Inl (Err e) \<Rightarrow> Inl (Err (''failed to generate quiz with LLM: '' @ e))
                         | Inl (SliceBoundsPanic lo hi) \<Rightarrow> Inl (SliceBoundsPanic lo hi)
                         | Inr response \<Rightarrow> Inr response)))"

section \<open>QuizHandler\<close>

definition validateQuizRequest :: "QuizRequest \<Rightarrow> err option" where
  "validateQuizRequest req =
     (if length (req_Conversation req) = 0 then Some ''conversation cannot be empty''
      else
        let lastMessage = req_Conversation req ! (length (req_Conversation req) - 1)
        in if Role lastMessage \<noteq> ''user'' then Some ''last message must be from user''
           else if Content lastMessage = [] then Some ''user message cannot be empty''
           else None)"

definition writeErrorResponse :: "nat \<Rightarrow> string \<Rightarrow> HTTPResponse" where
  "writeErrorResponse statusCode message = \<lparr>status = statusCode, body = ErrorBody message\<rparr>"

text \<open>
  The handler \<open>GenerateQuiz\<close>. Its input is the outcome of decoding the request body
  (\<open>None\<close> when the decoder fails); \<open>generatedAt\<close> and \<open>processingTimeMs\<close> are the two
  readings of the clock that go into the metadata. A panic of the service is not
  recovered by the handler and leaves it without a response.
\<close>

definition QuizHandler_GenerateQuiz ::
  "QuizHandler \<Rightarrow> unmarshal \<Rightarrow> (string \<Rightarrow> string) \<Rightarrow> int \<Rightarrow> string \<Rightarrow> int
   \<Rightarrow> QuizRequest option \<Rightarrow> failure + HTTPResponse" where
  "QuizHandler_GenerateQuiz h unm toLower now generatedAt processingTimeMs decoded =
     (case decoded of
        None \<Rightarrow> Inr (writeErrorResponse 400 ''Invalid JSON payload'')
      | Some req \<Rightarrow>
          (case validateQuizRequest req of
             Some e \<Rightarrow> Inr (writeErrorResponse 400 e)
           | None \<Rightarrow>
               (case GenerateQuiz (service h) unm toLower now (req_Conversation req) (req_NoteIds req) of
                  Inl (Err e) \<Rightarrow>
                    Inr (writeErrorResponse 500 (''Failed to generate quiz: '' @ e))
                | Inl (SliceBoundsPanic lo hi) \<Rightarrow> Inl (SliceBoundsPanic lo hi)
                | Inr newMessage \<Rightarrow>
                    Inr \<lparr>status = 200,
                         body = QuizBody
                           \<lparr>Success = True,
                            Data = \<lparr>Conversation = req_Conversation req @ [newMessage]\<rparr>,
                            Metadata = \<lparr>GeneratedAt = generatedAt,
                                        TokensUsed = 150,
                                        ProcessingTimeMs = processingTimeMs\<rparr>\<rparr>\<rparr>)))"

section \<open>Reference definitions and a test double\<close>

text \<open>
  The specification of the second loop of \<open>getNotesContent\<close>: the entries joined with
  the separator between neighbours, which is what \<open>strings.Join\<close> computes.
\<close>

fun Join :: "string list \<Rightarrow> string \<Rightarrow> string" where
  "Join [] sep = []"
| "Join [e] sep = e"
| "Join (e # es) sep = e @ sep @ Join es sep"

text \<open>
  The notes that resolve, in the order of the identifiers and with their repetitions:
  the specification of the first loop.
\<close>

definition resolved :: "NoteService \<Rightarrow> int list \<Rightarrow> Note list" where
  "resolved ns noteIds =
     List.map_filter
       (\<lambda>i. case GetNoteByID ns i of Inl e \<Rightarrow> None | Inr note \<Rightarrow> Some note) noteIds"

text \<open>
  A test double: a repository of two notes, listed newest first, and a model that
  answers every prompt with one question wrapped in prose.
\<close>

definition stubRepository :: NoteRepository where
  "stubRepository =
     \<lparr>repo_GetNoteByID =
        (\<lambda>i. if i = 1 then Inr \<lparr>note_ID = 1, note_Content = ''Go is typed''\<rparr>
             else if i = 2 then Inr \<lparr>note_ID = 2, note_Content = ''Channels''\<rparr>
             else Inl (''note with id '' @ Itoa i @ '' not found'')),
      repo_GetAllNotes =
        Inr [\<lparr>note_ID = 2, note_Content = ''Channels''\<rparr>,
             \<lparr>note_ID = 1, note_Content = ''Go is typed''\<rparr>]\<rparr>"

definition stubCompletion :: string where
  "stubCompletion =
     ''noise {\"question\":\"Q?\",\"type\":\"essay\",\"difficulty\":\"hard\"} trailing''"

definition stubService :: QuizService where
  "stubService =
     \<lparr>noteService = \<lparr>repo = stubRepository\<rparr>, llmClient = (\<lambda>prompt. Inr stubCompletion)\<rparr>"

definition stubHandler :: QuizHandler where
  "stubHandler = \<lparr>service = stubService\<rparr>"

section \<open>Facts about the string functions\<close>

lemmas char_eval = char_of_def bit_Suc_0_iff

lemmas json_eval =
  json_Unmarshal_def parseJSON_def skipSpace_def isJSONSpace_def isDigit_def storeField_def
  zeroResponse_def lowerASCII_def lowerByte_def char_eval

lemma Index_lower_bound: "- 1 \<le> Index s substr"
  by (induction s) (auto simp: Let_def)

lemma Index_absent: "c \<notin> set s \<Longrightarrow> Index s [c] = - 1"
  by (induction s) auto

lemma Index_first: "c \<notin> set pre \<Longrightarrow> Index (pre @ c # rest) [c] = int (length pre)"
  by (induction pre) (auto simp: Let_def)

lemma LastIndex_absent: "c \<notin> set s \<Longrightarrow> LastIndex s [c] = - 1"
  by (induction s) auto

lemma LastIndex_last: "c \<notin> set post \<Longrightarrow> LastIndex (xs @ c # post) [c] = int (length xs)"
  by (induction xs) (auto simp: Let_def LastIndex_absent)

lemma Contains_iff_sublist: "Contains s substr \<longleftrightarrow> sublist substr s"
proof (induction s)
  case Nil
  show ?case by (simp add: Contains_def)
next
  case (Cons c s)
  have lb: "- 1 \<le> Index s substr" by (rule Index_lower_bound)
  show ?case
  proof (cases "prefix substr (c # s)")
    case True
    then show ?thesis by (simp add: Contains_def sublist_Cons_right)
  next
    case False
    have "Contains (c # s) substr \<longleftrightarrow> Contains s substr"
      using False lb by (auto simp: Contains_def Let_def)
    with Cons False show ?thesis by (simp add: sublist_Cons_right)
  qed
qed

text \<open>
  The payload region: when the response is some text without \<open>{\<close>, then \<open>{\<close>, a
  middle, \<open>}\<close>, and some text without \<open>}\<close>, the slice taken by \<open>parseLLMResponse\<close> is
  the part from that first \<open>{\<close> to that last \<open>}\<close>, both included.
\<close>

lemma payload_region:
  assumes pre: "CHR ''{'' \<notin> set pre" and post: "CHR ''}'' \<notin> set post"
  shows "Index (pre @ ''{'' @ mid @ ''}'' @ post) ''{'' = int (length pre)"
    and "LastIndex (pre @ ''{'' @ mid @ ''}'' @ post) ''}'' + 1 = int (length pre + length mid + 2)"
    and "slice (pre @ ''{'' @ mid @ ''}'' @ post) (int (length pre))
           (int (length pre + length mid + 2)) = Inr (''{'' @ mid @ ''}'')"
proof -
  show "Index (pre @ ''{'' @ mid @ ''}'' @ post) ''{'' = int (length pre)"
    using Index_first [OF pre] by simp
  have "LastIndex ((pre @ ''{'' @ mid) @ CHR ''}'' # post) ''}'' = int (length (pre @ ''{'' @ mid))"
    by (rule LastIndex_last [OF post])
  then show "LastIndex (pre @ ''{'' @ mid @ ''}'' @ post) ''}'' + 1
      = int (length pre + length mid + 2)"
    by simp
  show "slice (pre @ ''{'' @ mid @ ''}'' @ post) (int (length pre))
           (int (length pre + length mid + 2)) = Inr (''{'' @ mid @ ''}'')"
  proof -
    have n: "nat (2 + int (length mid)) = Suc (Suc (length mid))"
      by simp
    show ?thesis
      by (simp add: slice_def n)
  qed
qed

lemma parseLLMResponse_on_region:
  assumes "CHR ''{'' \<notin> set pre" and "CHR ''}'' \<notin> set post"
  shows "parseLLMResponse unm now (pre @ ''{'' @ mid @ ''}'' @ post) noteIds =
     (case unm (''{'' @ mid @ ''}'') of
        Inl e \<Rightarrow> Inl (Err (''failed to parse JSON: '' @ e))
      | Inr r \<Rightarrow>
          if llm_Question r = [] then Inl (Err ''question field is required'')
          else Inr \<lparr>ID = ''q_llm_'' @ Itoa now, Text = llm_Question r, Type = llm_Type r,
                    Options = llm_Options r, CorrectAnswer = llm_CorrectAnswer r,
                    Explanation = llm_Explanation r, Difficulty = llm_Difficulty r,
                    BasedOnNotes = noteIds\<rparr>)"
  unfolding parseLLMResponse_def Let_def payload_region [OF assms]
  by simp

lemma parseLLMResponse_no_brace:
  assumes "CHR ''{'' \<notin> set response \<or> CHR ''}'' \<notin> set response"
  shows "parseLLMResponse unm now response noteIds = Inl (Err ''no valid JSON found in response'')"
  using assms by (auto simp: parseLLMResponse_def Let_def Index_absent LastIndex_absent)

section \<open>The response extractor\<close>

text \<open>
  The first \<open>{\<close> after the last \<open>}\<close>, with something between the two: the start
  index is then beyond the end index and the slice expression panics.
\<close>

lemma parseLLMResponse_brace_after:
  assumes a: "CHR ''{'' \<notin> set a" and b: "CHR ''{'' \<notin> set b" "CHR ''}'' \<notin> set b"
    and c: "CHR ''}'' \<notin> set c" and ne: "b \<noteq> []"
  shows "parseLLMResponse unm now (a @ ''}'' @ b @ ''{'' @ c) noteIds =
     Inl (SliceBoundsPanic (int (length a + length b + 1)) (int (length a + 1)))"
proof -
  have "CHR ''{'' \<notin> set (a @ ''}'' @ b)"
    using a b by simp
  then have "Index ((a @ ''}'' @ b) @ CHR ''{'' # c) ''{'' = int (length (a @ ''}'' @ b))"
    by (rule Index_first)
  then have start: "Index (a @ ''}'' @ b @ ''{'' @ c) ''{'' = int (length a + length b + 1)"
    by simp
  have "CHR ''}'' \<notin> set (b @ ''{'' @ c)"
    using b c by simp
  then have "LastIndex (a @ CHR ''}'' # (b @ ''{'' @ c)) ''}'' = int (length a)"
    by (rule LastIndex_last)
  then have stop: "LastIndex (a @ ''}'' @ b @ ''{'' @ c) ''}'' + 1 = int (length a + 1)"
    by simp
  from ne have "0 < length b"
    by simp
  then show ?thesis
    unfolding parseLLMResponse_def Let_def start stop
    by (simp add: slice_def)
qed

text \<open>
  C1. The claim: whenever no \<open>{\<close> stands before a \<open>}\<close> in the response, the extractor
  returns the error \<open>no valid JSON found in response\<close> and does not crash. The response
  \<open>} {\<close> has both braces and no \<open>{\<close> before a \<open>}\<close>: the two tests of the code pass
  (the start is 2, the end is 1), and the slice expression panics with the bounds
  \<open>[2:1]\<close>, for every decoder, clock reading and identifier list.
\<close>

theorem parseLLMResponse_reversed_braces_panic:
  "parseLLMResponse unm now ''} {'' noteIds = Inl (SliceBoundsPanic 2 1)"
  by (simp add: parseLLMResponse_def slice_def)

lemma parseLLMResponse_ID:
  "parseLLMResponse unm now response noteIds = Inr q \<Longrightarrow> ID q = ''q_llm_'' @ Itoa now"
  by (auto simp: parseLLMResponse_def Let_def split: if_splits sum.splits)

text \<open>
  C3. The claim: any two successful calls of the extractor produce distinct
  identifiers. The identifier is the prefix \<open>q_llm_\<close> and the clock in whole seconds
  (\<open>time.Now().Unix()\<close>), so two calls in the same second produce the same identifier,
  here for two different questions and identifier lists at the reading 1700000000.
\<close>

theorem parseLLMResponse_same_second_same_ID:
  "parseLLMResponse json_Unmarshal 1700000000 ''{\"question\":\"A?\"}'' [1] =
     Inr \<lparr>ID = ''q_llm_1700000000'', Text = ''A?'', Type = [], Options = [],
          CorrectAnswer = [], Explanation = [], Difficulty = [], BasedOnNotes = [1]\<rparr>
   \<and> parseLLMResponse json_Unmarshal 1700000000 ''{\"question\":\"B?\"}'' [2] =
     Inr \<lparr>ID = ''q_llm_1700000000'', Text = ''B?'', Type = [], Options = [],
          CorrectAnswer = [], Explanation = [], Difficulty = [], BasedOnNotes = [2]\<rparr>"
  by (simp add: parseLLMResponse_def slice_def Itoa_def json_eval)

text \<open>
  C4. On the raw text of the round-trip example, with any clock reading and any
  identifier list, the extractor returns the record with text \<open>Q?\<close>, type \<open>essay\<close>,
  difficulty \<open>hard\<close>, a generated identifier that is not empty, and the identifier list
  as it came. More generally, for every decoder: when the region from the first \<open>{\<close>
  to the last \<open>}\<close> decodes to a record whose question is not empty, the extractor
  succeeds and copies every decoded field, whatever strings the type and the difficulty
  are.
\<close>

theorem parseLLMResponse_roundtrip:
  "(parseLLMResponse json_Unmarshal now
      ''noise {\"question\":\"Q?\",\"type\":\"essay\",\"difficulty\":\"hard\"} trailing'' noteIds =
      Inr \<lparr>ID = ''q_llm_'' @ Itoa now, Text = ''Q?'', Type = ''essay'', Options = [],
           CorrectAnswer = [], Explanation = [], Difficulty = ''hard'',
           BasedOnNotes = noteIds\<rparr>
    \<and> ''q_llm_'' @ Itoa now \<noteq> [])
   \<and> (CHR ''{'' \<notin> set pre \<longrightarrow> CHR ''}'' \<notin> set post \<longrightarrow>
      unm (''{'' @ mid @ ''}'') = Inr r \<longrightarrow> llm_Question r \<noteq> [] \<longrightarrow>
      parseLLMResponse unm now' (pre @ ''{'' @ mid @ ''}'' @ post) noteIds' =
        Inr \<lparr>ID = ''q_llm_'' @ Itoa now', Text = llm_Question r, Type = llm_Type r,
             Options = llm_Options r, CorrectAnswer = llm_CorrectAnswer r,
             Explanation = llm_Explanation r, Difficulty = llm_Difficulty r,
             BasedOnNotes = noteIds'\<rparr>)"
proof -
  have example:
    "parseLLMResponse json_Unmarshal now
       ''noise {\"question\":\"Q?\",\"type\":\"essay\",\"difficulty\":\"hard\"} trailing'' noteIds =
       Inr \<lparr>ID = ''q_llm_'' @ Itoa now, Text = ''Q?'', Type = ''essay'', Options = [],
            CorrectAnswer = [], Explanation = [], Difficulty = ''hard'',
            BasedOnNotes = noteIds\<rparr>"
    by (simp add: parseLLMResponse_def slice_def json_eval)
  have general:
    "parseLLMResponse unm now' (pre @ ''{'' @ mid @ ''}'' @ post) noteIds' =
       Inr \<lparr>ID = ''q_llm_'' @ Itoa now', Text = llm_Question r, Type = llm_Type r,
            Options = llm_Options r, CorrectAnswer = llm_CorrectAnswer r,
            Explanation = llm_Explanation r, Difficulty = llm_Difficulty r,
            BasedOnNotes = noteIds'\<rparr>"
    if "CHR ''{'' \<notin> set pre" "CHR ''}'' \<notin> set post"
      "unm (''{'' @ mid @ ''}'') = Inr r" "llm_Question r \<noteq> []"
    using parseLLMResponse_on_region [OF that(1) that(2), of unm now' mid noteIds'] that(3) that(4)
    by simp
  from example general show ?thesis
    by simp
qed

text \<open>
  The general part at a response whose type and difficulty lie outside the enumerated
  values: both strings are passed through.
\<close>

theorem parseLLMResponse_roundtrip_witness:
  "CHR ''{'' \<notin> set ''Sure: '' \<and> CHR ''}'' \<notin> set '' Bye.''
   \<and> json_Unmarshal (''{'' @ ''\"question\":\"Why?\",\"type\":\"riddle\",\"difficulty\":\"extreme\"'' @ ''}'') =
       Inr \<lparr>llm_Question = ''Why?'', llm_Type = ''riddle'', llm_Options = [],
            llm_CorrectAnswer = [], llm_Explanation = [], llm_Difficulty = ''extreme''\<rparr>
   \<and> parseLLMResponse json_Unmarshal 42
        (''Sure: '' @ ''{'' @ ''\"question\":\"Why?\",\"type\":\"riddle\",\"difficulty\":\"extreme\"''
           @ ''}'' @ '' Bye.'') [3, 1, 3] =
       Inr \<lparr>ID = ''q_llm_42'', Text = ''Why?'', Type = ''riddle'', Options = [],
            CorrectAnswer = [], Explanation = [], Difficulty = ''extreme'',
            BasedOnNotes = [3, 1, 3]\<rparr>"
proof -
  have dec:
    "json_Unmarshal (''{'' @ ''\"question\":\"Why?\",\"type\":\"riddle\",\"difficulty\":\"extreme\"'' @ ''}'') =
       Inr \<lparr>llm_Question = ''Why?'', llm_Type = ''riddle'', llm_Options = [],
            llm_CorrectAnswer = [], llm_Explanation = [], llm_Difficulty = ''extreme''\<rparr>"
    by (simp add: json_eval)
  have id42: "Itoa 42 = ''42''"
    by (simp add: Itoa_def char_eval)
  show ?thesis
    using parseLLMResponse_roundtrip
      [where pre = "''Sure: ''" and post = "'' Bye.''" and unm = json_Unmarshal
         and mid = "''\"question\":\"Why?\",\"type\":\"riddle\",\"difficulty\":\"extreme\"''"
         and now' = 42 and noteIds' = "[3, 1, 3]"
         and r = "\<lparr>llm_Question = ''Why?'', llm_Type = ''riddle'', llm_Options = [],
            llm_CorrectAnswer = [], llm_Explanation = [], llm_Difficulty = ''extreme''\<rparr>"]
      dec id42
    by simp
qed

text \<open>
  C8. On the raw text \<open>{"type":"essay"}\<close>, where the question is absent, the extractor
  fails with \<open>question field is required\<close>. More generally, for every decoder: when
  the region from the first \<open>{\<close> to the last \<open>}\<close> decodes to a record whose question is
  the empty string, the extractor fails with that error and returns no record.
\<close>

theorem parseLLMResponse_question_required:
  "parseLLMResponse json_Unmarshal now ''{\"type\":\"essay\"}'' noteIds =
      Inl (Err ''question field is required'')
   \<and> (CHR ''{'' \<notin> set pre \<longrightarrow> CHR ''}'' \<notin> set post \<longrightarrow>
      unm (''{'' @ mid @ ''}'') = Inr r \<longrightarrow> llm_Question r = [] \<longrightarrow>
      parseLLMResponse unm now' (pre @ ''{'' @ mid @ ''}'' @ post) noteIds' =
        Inl (Err ''question field is required''))"
proof -
  have example:
    "parseLLMResponse json_Unmarshal now ''{\"type\":\"essay\"}'' noteIds =
       Inl (Err ''question field is required'')"
    by (simp add: parseLLMResponse_def slice_def json_eval)
  have general:
    "parseLLMResponse unm now' (pre @ ''{'' @ mid @ ''}'' @ post) noteIds' =
       Inl (Err ''question field is required'')"
    if "CHR ''{'' \<notin> set pre" "CHR ''}'' \<notin> set post"
      "unm (''{'' @ mid @ ''}'') = Inr r" "llm_Question r = []"
    using parseLLMResponse_on_region [OF that(1) that(2), of unm now' mid noteIds'] that(3) that(4)
    by simp
  from example general show ?thesis
    by simp
qed

text \<open>The general part at a response whose question is present and empty.\<close>

theorem parseLLMResponse_question_required_witness:
  "CHR ''{'' \<notin> set ''Here: '' \<and> CHR ''}'' \<notin> set ''.''
   \<and> json_Unmarshal (''{'' @ ''\"question\":\"\",\"type\":\"essay\"'' @ ''}'') =
       Inr \<lparr>llm_Question = [], llm_Type = ''essay'', llm_Options = [],
            llm_CorrectAnswer = [], llm_Explanation = [], llm_Difficulty = []\<rparr>
   \<and> parseLLMResponse json_Unmarshal 7
        (''Here: '' @ ''{'' @ ''\"question\":\"\",\"type\":\"essay\"'' @ ''}'' @ ''.'') [5] =
       Inl (Err ''question field is required'')"
proof -
  have dec:
    "json_Unmarshal (''{'' @ ''\"question\":\"\",\"type\":\"essay\"'' @ ''}'') =
       Inr \<lparr>llm_Question = [], llm_Type = ''essay'', llm_Options = [],
            llm_CorrectAnswer = [], llm_Explanation = [], llm_Difficulty = []\<rparr>"
    by (simp add: json_eval)
  show ?thesis
    using parseLLMResponse_question_required
      [where pre = "''Here: ''" and post = "''.''" and unm = json_Unmarshal
         and mid = "''\"question\":\"\",\"type\":\"essay\"''"
         and now' = 7 and noteIds' = "[5]"
         and r = "\<lparr>llm_Question = [], llm_Type = ''essay'', llm_Options = [],
            llm_CorrectAnswer = [], llm_Explanation = [], llm_Difficulty = []\<rparr>"]
      dec
    by simp
qed

section \<open>Parameter inference\<close>

lemma containsKeywords_iff:
  "containsKeywords toLower text kws \<longleftrightarrow>
     (\<exists>k \<in> set kws. sublist (toLower k) (toLower text))"
  by (induction kws) (auto simp: Contains_iff_sublist)

lemma containsKeywords_fixed:
  assumes "\<forall>k \<in> set kws. toLower k = k"
  shows "containsKeywords toLower text kws \<longleftrightarrow> (\<exists>k \<in> set kws. sublist k (toLower text))"
proof -
  have "sublist (toLower k) (toLower text) \<longleftrightarrow> sublist k (toLower text)" if "k \<in> set kws" for k
    using assms that by simp
  then show ?thesis
    unfolding containsKeywords_iff by blast
qed

lemma lowerASCII_keywords:
  "map lowerASCII
     [''easy'', ''simple'', ''basic'', ''beginner'', ''hard'', ''difficult'', ''challenging'',
      ''advanced'', ''essay'', ''explain'', ''describe'', ''discuss'', ''true'', ''false'',
      ''yes'', ''no''] =
     [''easy'', ''simple'', ''basic'', ''beginner'', ''hard'', ''difficult'', ''challenging'',
      ''advanced'', ''essay'', ''explain'', ''describe'', ''discuss'', ''true'', ''false'',
      ''yes'', ''no'']"
  by (simp add: lowerASCII_def lowerByte_def char_eval)

text \<open>
  C6. \<open>toLower\<close> stands for \<open>strings.ToLower\<close>; all that is asked of it is that it
  leaves the sixteen keywords, which are lower-case ASCII, as they are. Then: the
  difficulty is \<open>easy\<close> when the lowercased text has one of the four easy keywords as a
  substring, whether or not a hard keyword occurs too; otherwise \<open>hard\<close> when it has
  one of the four hard keywords; otherwise \<open>medium\<close>. The type is \<open>essay\<close> when the
  lowercased text has one of the four essay keywords, whether or not a true/false
  keyword occurs too; otherwise \<open>true-false\<close> when it has one of \<open>true\<close>, \<open>false\<close>,
  \<open>yes\<close>, \<open>no\<close>; otherwise \<open>multiple-choice\<close>. Two texts with the same lowercased form
  get the same difficulty and the same type.
\<close>

theorem extract_keyword_priority:
  "(\<forall>k \<in> set [''easy'', ''simple'', ''basic'', ''beginner'', ''hard'', ''difficult'',
               ''challenging'', ''advanced'', ''essay'', ''explain'', ''describe'', ''discuss'',
               ''true'', ''false'', ''yes'', ''no'']. toLower k = k) \<longrightarrow>
   extractDifficulty toLower text =
     (if \<exists>k \<in> set [''easy'', ''simple'', ''basic'', ''beginner'']. sublist k (toLower text)
      then ''easy''
      else if \<exists>k \<in> set [''hard'', ''difficult'', ''challenging'', ''advanced''].
                sublist k (toLower text)
      then ''hard''
      else ''medium'')
   \<and> extractQuestionType toLower text =
     (if \<exists>k \<in> set [''essay'', ''explain'', ''describe'', ''discuss'']. sublist k (toLower text)
      then ''essay''
      else if \<exists>k \<in> set [''true'', ''false'', ''yes'', ''no'']. sublist k (toLower text)
      then ''true-false''
      else ''multiple-choice'')
   \<and> (toLower text = toLower text' \<longrightarrow>
        extractDifficulty toLower text = extractDifficulty toLower text'
        \<and> extractQuestionType toLower text = extractQuestionType toLower text')"
proof (intro impI)
  assume fixed:
    "\<forall>k \<in> set [''easy'', ''simple'', ''basic'', ''beginner'', ''hard'', ''difficult'',
               ''challenging'', ''advanced'', ''essay'', ''explain'', ''describe'', ''discuss'',
               ''true'', ''false'', ''yes'', ''no'']. toLower k = k"
  have easy: "\<forall>k \<in> set [''easy'', ''simple'', ''basic'', ''beginner'']. toLower k = k"
    using fixed by simp
  have hard: "\<forall>k \<in> set [''hard'', ''difficult'', ''challenging'', ''advanced'']. toLower k = k"
    using fixed by simp
  have essay: "\<forall>k \<in> set [''essay'', ''explain'', ''describe'', ''discuss'']. toLower k = k"
    using fixed by simp
  have truefalse: "\<forall>k \<in> set [''true'', ''false'', ''yes'', ''no'']. toLower k = k"
    using fixed by simp
  have d: "extractDifficulty toLower t =
     (if \<exists>k \<in> set [''easy'', ''simple'', ''basic'', ''beginner'']. sublist k (toLower t)
      then ''easy''
      else if \<exists>k \<in> set [''hard'', ''difficult'', ''challenging'', ''advanced''].
                sublist k (toLower t)
      then ''hard''
      else ''medium'')" for t
    unfolding extractDifficulty_def
      containsKeywords_fixed [OF easy] containsKeywords_fixed [OF hard]
    by (rule refl)
  have q: "extractQuestionType toLower t =
     (if \<exists>k \<in> set [''essay'', ''explain'', ''describe'', ''discuss'']. sublist k (toLower t)
      then ''essay''
      else if \<exists>k \<in> set [''true'', ''false'', ''yes'', ''no'']. sublist k (toLower t)
      then ''true-false''
      else ''multiple-choice'')" for t
    unfolding extractQuestionType_def
      containsKeywords_fixed [OF essay] containsKeywords_fixed [OF truefalse]
    by (rule refl)
  have c: "extractDifficulty toLower text = extractDifficulty toLower text'
        \<and> extractQuestionType toLower text = extractQuestionType toLower text'"
    if "toLower text = toLower text'"
    unfolding d q that by simp
  from d [of "text"] q [of "text"] c
  show "extractDifficulty toLower text =
     (if \<exists>k \<in> set [''easy'', ''simple'', ''basic'', ''beginner'']. sublist k (toLower text)
      then ''easy''
      else if \<exists>k \<in> set [''hard'', ''difficult'', ''challenging'', ''advanced''].
                sublist k (toLower text)
      then ''hard''
      else ''medium'')
   \<and> extractQuestionType toLower text =
     (if \<exists>k \<in> set [''essay'', ''explain'', ''describe'', ''discuss'']. sublist k (toLower text)
      then ''essay''
      else if \<exists>k \<in> set [''true'', ''false'', ''yes'', ''no'']. sublist k (toLower text)
      then ''true-false''
      else ''multiple-choice'')
   \<and> (toLower text = toLower text' \<longrightarrow>
        extractDifficulty toLower text = extractDifficulty toLower text'
        \<and> extractQuestionType toLower text = extractQuestionType toLower text')"
    by blast
qed

text \<open>
  With the ASCII lowercasing, which leaves the sixteen keywords as they are: two texts
  that differ in case only, each with an easy and a hard keyword and with an essay and
  a true/false keyword, are both \<open>easy\<close> and \<open>essay\<close>; a text with a hard and a
  true/false keyword only is \<open>hard\<close> and \<open>true-false\<close>; a text with none is \<open>medium\<close>
  and \<open>multiple-choice\<close>.
\<close>

theorem extract_keyword_priority_witness:
  "map lowerASCII
     [''easy'', ''simple'', ''basic'', ''beginner'', ''hard'', ''difficult'', ''challenging'',
      ''advanced'', ''essay'', ''explain'', ''describe'', ''discuss'', ''true'', ''false'',
      ''yes'', ''no''] =
     [''easy'', ''simple'', ''basic'', ''beginner'', ''hard'', ''difficult'', ''challenging'',
      ''advanced'', ''essay'', ''explain'', ''describe'', ''discuss'', ''true'', ''false'',
      ''yes'', ''no'']
   \<and> lowerASCII ''A HARD but Simple one: Explain, yes'' =
       lowerASCII ''a hard but simple one: explain, yes''
   \<and> extractDifficulty lowerASCII ''A HARD but Simple one: Explain, yes'' = ''easy''
   \<and> extractDifficulty lowerASCII ''a hard but simple one: explain, yes'' = ''easy''
   \<and> extractQuestionType lowerASCII ''A HARD but Simple one: Explain, yes'' = ''essay''
   \<and> extractQuestionType lowerASCII ''a hard but simple one: explain, yes'' = ''essay''
   \<and> extractDifficulty lowerASCII ''Advanced: TRUE?'' = ''hard''
   \<and> extractQuestionType lowerASCII ''Advanced: TRUE?'' = ''true-false''
   \<and> extractDifficulty lowerASCII ''Quiz me'' = ''medium''
   \<and> extractQuestionType lowerASCII ''Quiz me'' = ''multiple-choice''"
proof -
  have fixed:
    "\<forall>k \<in> set [''easy'', ''simple'', ''basic'', ''beginner'', ''hard'', ''difficult'',
               ''challenging'', ''advanced'', ''essay'', ''explain'', ''describe'', ''discuss'',
               ''true'', ''false'', ''yes'', ''no'']. lowerASCII k = k"
    by (simp add: lowerASCII_def lowerByte_def char_eval)
  have low: "lowerASCII ''A HARD but Simple one: Explain, yes'' = ''a hard but simple one: explain, yes''"
    "lowerASCII ''a hard but simple one: explain, yes'' = ''a hard but simple one: explain, yes''"
    "lowerASCII ''Advanced: TRUE?'' = ''advanced: true?''"
    "lowerASCII ''Quiz me'' = ''quiz me''"
    by (simp_all add: lowerASCII_def lowerByte_def char_eval)
  note eval = sublist_Cons_right
  have r1: "extractDifficulty lowerASCII ''A HARD but Simple one: Explain, yes'' = ''easy''
      \<and> extractQuestionType lowerASCII ''A HARD but Simple one: Explain, yes'' = ''essay''"
    using extract_keyword_priority
      [of lowerASCII "''A HARD but Simple one: Explain, yes''" "''a hard but simple one: explain, yes''"]
      fixed
    by (simp add: low eval)
  have r2: "extractDifficulty lowerASCII ''a hard but simple one: explain, yes'' = ''easy''
      \<and> extractQuestionType lowerASCII ''a hard but simple one: explain, yes'' = ''essay''"
    using extract_keyword_priority
      [of lowerASCII "''a hard but simple one: explain, yes''" "''a hard but simple one: explain, yes''"]
      fixed
    by (simp add: low eval)
  have r3: "extractDifficulty lowerASCII ''Advanced: TRUE?'' = ''hard''
      \<and> extractQuestionType lowerASCII ''Advanced: TRUE?'' = ''true-false''"
    using extract_keyword_priority [of lowerASCII "''Advanced: TRUE?''" "''Advanced: TRUE?''"] fixed
    by (simp add: low eval)
  have r4: "extractDifficulty lowerASCII ''Quiz me'' = ''medium''
      \<and> extractQuestionType lowerASCII ''Quiz me'' = ''multiple-choice''"
    using extract_keyword_priority [of lowerASCII "''Quiz me''" "''Quiz me''"] fixed
    by (simp add: low eval)
  from r1 r2 r3 r4 low lowerASCII_keywords show ?thesis
    by simp
qed

section \<open>Content aggregation\<close>

lemma resolved_Nil: "resolved ns [] = []"
  by (simp add: resolved_def map_filter_simps)

lemma resolved_Cons:
  "resolved ns (i # ids) =
     (case GetNoteByID ns i of Inl e \<Rightarrow> resolved ns ids | Inr note \<Rightarrow> note # resolved ns ids)"
  by (simp add: resolved_def map_filter_simps split: sum.splits)

lemma fetchNotes_resolved: "fetchNotes ns ids acc = acc @ resolved ns ids"
  by (induction ids arbitrary: acc) (auto simp: resolved_Nil resolved_Cons split: sum.splits)

lemma Join_Cons: "Join (e # es) sep = (if es = [] then e else e @ sep @ Join es sep)"
  by (cases es) auto

lemma combineNotes_Join:
  "combineNotes xs i b =
     (if xs = [] then b
      else (if i > 0 then b @ separator else b) @ Join (map noteEntry xs) separator)"
proof (induction xs arbitrary: i b)
  case Nil
  show ?case by simp
next
  case (Cons x xs)
  show ?case
    by (simp add: Cons.IH Join_Cons)
qed

lemma getNotesContent_ids:
  assumes "noteIds \<noteq> []"
  shows "getNotesContent s noteIds =
     (if resolved (noteService s) noteIds = [] then Inl ''no notes found''
      else Inr (Join (map noteEntry (resolved (noteService s) noteIds)) separator))"
  using assms by (simp add: getNotesContent_def fetchNotes_resolved combineNotes_Join)

lemma resolved_empty_iff:
  "resolved ns ids = [] \<longleftrightarrow> (\<forall>i \<in> set ids. \<exists>e. GetNoteByID ns i = Inl e)"
  by (induction ids) (auto simp: resolved_Nil resolved_Cons split: sum.splits)

lemma resolved_nonempty:
  "i \<in> set ids \<Longrightarrow> GetNoteByID ns i = Inr n \<Longrightarrow> resolved ns ids \<noteq> []"
  by (induction ids) (auto simp: resolved_Nil resolved_Cons split: sum.splits)

lemma count_resolved_ge:
  "GetNoteByID ns i = Inr n \<Longrightarrow> count_list ids i \<le> count_list (resolved ns ids) n"
  by (induction ids) (auto simp: resolved_Nil resolved_Cons split: sum.splits)

lemma count_resolved_eq:
  assumes res: "GetNoteByID ns i = Inr n"
    and faithful: "\<And>j m. GetNoteByID ns j = Inr m \<Longrightarrow> note_ID m = j"
  shows "count_list (resolved ns ids) n = count_list ids i"
proof (induction ids)
  case Nil
  show ?case by (simp add: resolved_Nil)
next
  case (Cons j ids)
  show ?case
  proof (cases "GetNoteByID ns j")
    case (Inl e)
    with res have "j \<noteq> i" by auto
    with Inl Cons show ?thesis by (simp add: resolved_Cons)
  next
    case (Inr m)
    have idn: "note_ID n = i" by (rule faithful [OF res])
    have idm: "note_ID m = j" by (rule faithful [OF Inr])
    show ?thesis
    proof (cases "j = i")
      case True
      with res Inr have "m = n" by simp
      with True Inr Cons show ?thesis by (simp add: resolved_Cons)
    next
      case False
      with idn idm have "m \<noteq> n" by blast
      with False Inr Cons show ?thesis by (simp add: resolved_Cons)
    qed
  qed
qed

lemma resolved_replicate:
  "GetNoteByID ns i = Inr n \<Longrightarrow> resolved ns (replicate k i) = replicate k n"
  by (induction k) (auto simp: resolved_Nil resolved_Cons)

lemma GetNoteByID_nonpositive: "i \<le> 0 \<Longrightarrow> GetNoteByID ns i = Inl (''invalid note ID: '' @ Itoa i)"
  by (simp add: GetNoteByID_def)

lemma resolved_positive: "resolved ns (filter (\<lambda>i. 0 < i) ids) = resolved ns ids"
proof (induction ids)
  case Nil
  show ?case by simp
next
  case (Cons j ids)
  show ?case
  proof (cases "0 < j")
    case True
    with Cons show ?thesis by (simp add: resolved_Cons split: sum.splits)
  next
    case False
    then have "GetNoteByID ns j = Inl (''invalid note ID: '' @ Itoa j)"
      by (simp add: GetNoteByID_nonpositive)
    with False Cons show ?thesis by (simp add: resolved_Cons)
  qed
qed

text \<open>
  C5. With a non-empty identifier list of which at least one identifier resolves, the
  aggregation succeeds, and its text is the entries of the notes that resolve, in the
  order of the list, joined by the separator; the identifiers that fail leave no
  trace. With a non-empty list of which every identifier fails, it fails with
  \<open>no notes found\<close>; so it does with an empty list when the repository returns no
  notes.
\<close>

theorem getNotesContent_partial_failure:
  "(noteIds \<noteq> [] \<longrightarrow> (\<exists>i \<in> set noteIds. \<exists>n. GetNoteByID (noteService s) i = Inr n) \<longrightarrow>
      getNotesContent s noteIds =
        Inr (Join (map noteEntry (resolved (noteService s) noteIds)) separator))
   \<and> (noteIds \<noteq> [] \<longrightarrow> (\<forall>i \<in> set noteIds. \<exists>e. GetNoteByID (noteService s) i = Inl e) \<longrightarrow>
      getNotesContent s noteIds = Inl ''no notes found'')
   \<and> (repo_GetAllNotes (repo (noteService s)) = Inr [] \<longrightarrow>
      getNotesContent s [] = Inl ''no notes found'')"
proof -
  have some: "getNotesContent s noteIds =
      Inr (Join (map noteEntry (resolved (noteService s) noteIds)) separator)"
    if "noteIds \<noteq> []" "\<exists>i \<in> set noteIds. \<exists>n. GetNoteByID (noteService s) i = Inr n"
  proof -
    from that(2) have "resolved (noteService s) noteIds \<noteq> []"
      using resolved_nonempty by blast
    with that(1) show ?thesis
      by (simp add: getNotesContent_ids)
  qed
  have none: "getNotesContent s noteIds = Inl ''no notes found''"
    if "noteIds \<noteq> []" "\<forall>i \<in> set noteIds. \<exists>e. GetNoteByID (noteService s) i = Inl e"
  proof -
    from that(2) have "resolved (noteService s) noteIds = []"
      by (simp add: resolved_empty_iff)
    with that(1) show ?thesis
      by (simp add: getNotesContent_ids)
  qed
  have empty: "getNotesContent s [] = Inl ''no notes found''"
    if "repo_GetAllNotes (repo (noteService s)) = Inr []"
    using that by (simp add: getNotesContent_def GetAllNotes_def)
  from some none empty show ?thesis
    by blast
qed

text \<open>
  On the test double: of the identifiers 0, 2, 7, 1 the second and the fourth resolve;
  0 and 7 both fail; and a repository without notes is asked for all of them.
\<close>

theorem getNotesContent_partial_failure_witness:
  "[0, 2, 7, 1] \<noteq> [] \<and> (\<exists>i \<in> set [0, 2, 7, 1]. \<exists>n. GetNoteByID (noteService stubService) i = Inr n)
   \<and> getNotesContent stubService [0, 2, 7, 1] =
       Inr (''Note 2: Channels'' @ separator @ ''Note 1: Go is typed'')
   \<and> [0, 7 :: int] \<noteq> []
   \<and> GetNoteByID (noteService stubService) 0 = Inl ''invalid note ID: 0''
   \<and> GetNoteByID (noteService stubService) 7 = Inl ''note with id 7 not found''
   \<and> getNotesContent stubService [0, 7] = Inl ''no notes found''
   \<and> repo_GetAllNotes (repo (noteService (stubService\<lparr>noteService := \<lparr>repo = stubRepository\<lparr>repo_GetAllNotes := Inr []\<rparr>\<rparr>\<rparr>))) = Inr []
   \<and> getNotesContent (stubService\<lparr>noteService := \<lparr>repo = stubRepository\<lparr>repo_GetAllNotes := Inr []\<rparr>\<rparr>\<rparr>) [] = Inl ''no notes found''"
proof -
  have g: "GetNoteByID (noteService stubService) 0 = Inl ''invalid note ID: 0''"
    "GetNoteByID (noteService stubService) 2 = Inr \<lparr>note_ID = 2, note_Content = ''Channels''\<rparr>"
    "GetNoteByID (noteService stubService) 7 = Inl ''note with id 7 not found''"
    "GetNoteByID (noteService stubService) 1 = Inr \<lparr>note_ID = 1, note_Content = ''Go is typed''\<rparr>"
    by (simp_all add: GetNoteByID_def stubService_def stubRepository_def Itoa_def char_eval)
  have r: "resolved (noteService stubService) [0, 2, 7, 1] =
      [\<lparr>note_ID = 2, note_Content = ''Channels''\<rparr>, \<lparr>note_ID = 1, note_Content = ''Go is typed''\<rparr>]"
    by (simp add: resolved_Cons resolved_Nil g)
  have e: "map noteEntry [\<lparr>note_ID = 2, note_Content = ''Channels''\<rparr>, \<lparr>note_ID = 1, note_Content = ''Go is typed''\<rparr>]
      = [''Note 2: Channels'', ''Note 1: Go is typed'']"
    by (simp add: noteEntry_def Itoa_def char_eval)
  show ?thesis
    using getNotesContent_partial_failure [of "[0, 2, 7, 1]" stubService]
      getNotesContent_partial_failure [of "[0, 7]" stubService]
      getNotesContent_partial_failure
        [of "[]" "stubService\<lparr>noteService := \<lparr>repo = stubRepository\<lparr>repo_GetAllNotes := Inr []\<rparr>\<rparr>\<rparr>"]
      g r e
    by simp
qed

lemma noteEntry_format:
  "noteEntry = (\<lambda>m. ''Note '' @ Itoa (note_ID m) @ '': '' @ note_Content m)"
  by (rule ext) (simp add: noteEntry_def)

text \<open>
  C9. The identifier list is not deduplicated. When an identifier that resolves to a
  note occurs in the list, the aggregation succeeds, and its text is the entries
  \<open>Note <ID>: <Content>\<close> of the resolved notes, joined by the separator: two line
  feeds, the line \<open>---\<close>, two line feeds. The note occurs among the resolved notes at
  least as often as the identifier occurs in the list; exactly as often when every
  note the service returns carries the identifier it was asked for. In particular the
  list of \<open>k + 1\<close> copies of the identifier gives \<open>k + 1\<close> copies of the entry with that
  separator between neighbours.
\<close>

theorem getNotesContent_keeps_duplicates:
  "GetNoteByID (noteService s) i = Inr n \<longrightarrow> i \<in> set noteIds \<longrightarrow>
     getNotesContent s noteIds =
       Inr (Join (map (\<lambda>m. ''Note '' @ Itoa (note_ID m) @ '': '' @ note_Content m)
                   (resolved (noteService s) noteIds))
              ([CHR 0x0A, CHR 0x0A] @ ''---'' @ [CHR 0x0A, CHR 0x0A]))
     \<and> count_list noteIds i \<le> count_list (resolved (noteService s) noteIds) n
     \<and> ((\<forall>j m. GetNoteByID (noteService s) j = Inr m \<longrightarrow> note_ID m = j) \<longrightarrow>
          count_list (resolved (noteService s) noteIds) n = count_list noteIds i)
     \<and> getNotesContent s (replicate (Suc k) i) =
          Inr (Join (replicate (Suc k) (''Note '' @ Itoa (note_ID n) @ '': '' @ note_Content n))
                 ([CHR 0x0A, CHR 0x0A] @ ''---'' @ [CHR 0x0A, CHR 0x0A]))"
proof (intro impI)
  assume res: "GetNoteByID (noteService s) i = Inr n" and mem: "i \<in> set noteIds"
  from mem have ne: "noteIds \<noteq> []" by auto
  from mem res have rne: "resolved (noteService s) noteIds \<noteq> []"
    by (rule resolved_nonempty)
  have "getNotesContent s noteIds =
       Inr (Join (map noteEntry (resolved (noteService s) noteIds)) separator)"
    using ne rne by (simp add: getNotesContent_ids)
  then have joined: "getNotesContent s noteIds =
       Inr (Join (map (\<lambda>m. ''Note '' @ Itoa (note_ID m) @ '': '' @ note_Content m)
                   (resolved (noteService s) noteIds))
              ([CHR 0x0A, CHR 0x0A] @ ''---'' @ [CHR 0x0A, CHR 0x0A]))"
    unfolding noteEntry_format separator_def .
  have ge: "count_list noteIds i \<le> count_list (resolved (noteService s) noteIds) n"
    by (rule count_resolved_ge [OF res])
  have eq: "count_list (resolved (noteService s) noteIds) n = count_list noteIds i"
    if "\<forall>j m. GetNoteByID (noteService s) j = Inr m \<longrightarrow> note_ID m = j"
    using that by (intro count_resolved_eq [OF res]) blast
  have "getNotesContent s (replicate (Suc k) i) =
          Inr (Join (replicate (Suc k) (noteEntry n)) separator)"
  proof -
    have "resolved (noteService s) (replicate (Suc k) i) = replicate (Suc k) n"
      by (rule resolved_replicate [OF res])
    moreover have "replicate (Suc k) i \<noteq> []" by simp
    ultimately show ?thesis
      using getNotesContent_ids [of "replicate (Suc k) i" s] by simp
  qed
  then have rep: "getNotesContent s (replicate (Suc k) i) =
          Inr (Join (replicate (Suc k) (''Note '' @ Itoa (note_ID n) @ '': '' @ note_Content n))
                 ([CHR 0x0A, CHR 0x0A] @ ''---'' @ [CHR 0x0A, CHR 0x0A]))"
    unfolding noteEntry_format separator_def .
  from joined ge eq rep
  show "getNotesContent s noteIds =
       Inr (Join (map (\<lambda>m. ''Note '' @ Itoa (note_ID m) @ '': '' @ note_Content m)
                   (resolved (noteService s) noteIds))
              ([CHR 0x0A, CHR 0x0A] @ ''---'' @ [CHR 0x0A, CHR 0x0A]))
     \<and> count_list noteIds i \<le> count_list (resolved (noteService s) noteIds) n
     \<and> ((\<forall>j m. GetNoteByID (noteService s) j = Inr m \<longrightarrow> note_ID m = j) \<longrightarrow>
          count_list (resolved (noteService s) noteIds) n = count_list noteIds i)
     \<and> getNotesContent s (replicate (Suc k) i) =
          Inr (Join (replicate (Suc k) (''Note '' @ Itoa (note_ID n) @ '': '' @ note_Content n))
                 ([CHR 0x0A, CHR 0x0A] @ ''---'' @ [CHR 0x0A, CHR 0x0A]))"
    by blast
qed

text \<open>
  C10. For an identifier less than or equal to zero the lookup fails with
  \<open>invalid note ID\<close>, whatever the repository is: the result does not depend on it.
  During aggregation of a non-empty list, the identifiers that are not positive
  contribute nothing: the result is that of the list without them, or \<open>no notes found\<close>
  when none is left.
\<close>

theorem nonpositive_ids_skipped:
  "(i \<le> 0 \<longrightarrow> GetNoteByID ns i = Inl (''invalid note ID: '' @ Itoa i))
   \<and> (noteIds \<noteq> [] \<longrightarrow>
        getNotesContent s noteIds =
          (if filter (\<lambda>j. 0 < j) noteIds = [] then Inl ''no notes found''
           else getNotesContent s (filter (\<lambda>j. 0 < j) noteIds)))"
proof -
  have b: "getNotesContent s noteIds =
          (if filter (\<lambda>j. 0 < j) noteIds = [] then Inl ''no notes found''
           else getNotesContent s (filter (\<lambda>j. 0 < j) noteIds))"
    if ne: "noteIds \<noteq> []"
  proof (cases "filter (\<lambda>j. 0 < j) noteIds = []")
    case True
    have "resolved (noteService s) noteIds = resolved (noteService s) (filter (\<lambda>j. 0 < j) noteIds)"
      by (simp only: resolved_positive)
    with True have "resolved (noteService s) noteIds = []"
      by (simp only: resolved_Nil)
    with ne True show ?thesis
      by (simp add: getNotesContent_ids)
  next
    case False
    show ?thesis
      unfolding getNotesContent_ids [OF ne] getNotesContent_ids [OF False] resolved_positive
      using False by simp
  qed
  from b show ?thesis
    by (simp add: GetNoteByID_nonpositive)
qed

lemma stub_GetNoteByID:
  "GetNoteByID (noteService stubService) j =
     (if j \<le> 0 then Inl (''invalid note ID: '' @ Itoa j)
      else if j = 1 then Inr \<lparr>note_ID = 1, note_Content = ''Go is typed''\<rparr>
      else if j = 2 then Inr \<lparr>note_ID = 2, note_Content = ''Channels''\<rparr>
      else Inl (''note with id '' @ Itoa j @ '' not found''))"
  by (simp add: GetNoteByID_def stubService_def stubRepository_def)

text \<open>
  On the test double, with the identifier 2 given twice and three times; the texts are
  written out byte by byte.
\<close>

theorem getNotesContent_keeps_duplicates_witness:
  "GetNoteByID (noteService stubService) 2 = Inr \<lparr>note_ID = 2, note_Content = ''Channels''\<rparr>
   \<and> 2 \<in> set [2, 1, 2 :: int]
   \<and> count_list [2, 1, 2 :: int] 2 = 2
   \<and> count_list (resolved (noteService stubService) [2, 1, 2])
        \<lparr>note_ID = 2, note_Content = ''Channels''\<rparr> = 2
   \<and> getNotesContent stubService [2, 1, 2] =
        Inr (''Note 2: Channels'' @ [CHR 0x0A, CHR 0x0A] @ ''---'' @ [CHR 0x0A, CHR 0x0A]
             @ ''Note 1: Go is typed'' @ [CHR 0x0A, CHR 0x0A] @ ''---'' @ [CHR 0x0A, CHR 0x0A]
             @ ''Note 2: Channels'')
   \<and> getNotesContent stubService (replicate 3 2) =
        Inr (''Note 2: Channels'' @ [CHR 0x0A, CHR 0x0A] @ ''---'' @ [CHR 0x0A, CHR 0x0A]
             @ ''Note 2: Channels'' @ [CHR 0x0A, CHR 0x0A] @ ''---'' @ [CHR 0x0A, CHR 0x0A]
             @ ''Note 2: Channels'')"
proof -
  let ?n = "\<lparr>note_ID = 2, note_Content = ''Channels''\<rparr>"
  have faithful: "\<forall>j m. GetNoteByID (noteService stubService) j = Inr m \<longrightarrow> note_ID m = j"
    by (auto simp: stub_GetNoteByID split: if_splits)
  have res: "GetNoteByID (noteService stubService) 2 = Inr ?n"
    by (simp add: stub_GetNoteByID)
  have mem: "2 \<in> set [2, 1, 2 :: int]"
    by simp
  have r: "resolved (noteService stubService) [2, 1, 2] =
      [?n, \<lparr>note_ID = 1, note_Content = ''Go is typed''\<rparr>, ?n]"
    by (simp add: resolved_Cons resolved_Nil stub_GetNoteByID)
  have i: "Itoa 1 = ''1''" "Itoa 2 = ''2''"
    by (simp_all add: Itoa_def char_eval)
  note all = getNotesContent_keeps_duplicates
    [of stubService 2 ?n "[2, 1, 2]" 2, THEN mp, OF res, THEN mp, OF mem]
  have joined: "getNotesContent stubService [2, 1, 2] =
        Inr (''Note 2: Channels'' @ [CHR 0x0A, CHR 0x0A] @ ''---'' @ [CHR 0x0A, CHR 0x0A]
             @ ''Note 1: Go is typed'' @ [CHR 0x0A, CHR 0x0A] @ ''---'' @ [CHR 0x0A, CHR 0x0A]
             @ ''Note 2: Channels'')"
    unfolding all [THEN conjunct1] r by (simp add: i)
  have cnt: "count_list (resolved (noteService stubService) [2, 1, 2]) ?n = 2"
    unfolding all [THEN conjunct2, THEN conjunct2, THEN conjunct1, THEN mp, OF faithful]
    by simp
  have three: "replicate 3 (2 :: int) = replicate (Suc 2) 2"
    by simp
  have rep: "getNotesContent stubService (replicate 3 2) =
        Inr (''Note 2: Channels'' @ [CHR 0x0A, CHR 0x0A] @ ''---'' @ [CHR 0x0A, CHR 0x0A]
             @ ''Note 2: Channels'' @ [CHR 0x0A, CHR 0x0A] @ ''---'' @ [CHR 0x0A, CHR 0x0A]
             @ ''Note 2: Channels'')"
    unfolding three all [THEN conjunct2, THEN conjunct2, THEN conjunct2]
    by (simp add: i numeral_2_eq_2)
  from res mem cnt joined rep show ?thesis
    by simp
qed

text \<open>On the test double, with the identifiers -3 and 0 around the identifier 2.\<close>

theorem nonpositive_ids_skipped_witness:
  "(- 3 :: int) \<le> 0
   \<and> GetNoteByID (noteService stubService) (- 3) = Inl ''invalid note ID: -3''
   \<and> [- 3, 2, 0 :: int] \<noteq> []
   \<and> getNotesContent stubService [- 3, 2, 0] = getNotesContent stubService [2]
   \<and> getNotesContent stubService [2] = Inr ''Note 2: Channels''
   \<and> getNotesContent stubService [- 3, 0] = Inl ''no notes found''"
proof -
  have i: "Itoa (- 3) = ''-3''"
    by (simp add: Itoa_def char_eval)
  have two: "getNotesContent stubService [2] = Inr ''Note 2: Channels''"
    by (simp add: getNotesContent_ids resolved_Cons resolved_Nil stub_GetNoteByID noteEntry_def
        Itoa_def char_eval)
  show ?thesis
    using nonpositive_ids_skipped [of "- 3" "noteService stubService" "[- 3, 2, 0]" stubService]
      nonpositive_ids_skipped [of "- 3" "noteService stubService" "[- 3, 0]" stubService]
      i two
    by simp
qed

section \<open>Validation of the conversation and assembly of the answer\<close>

lemma lastMessage_last:
  "conversation \<noteq> [] \<Longrightarrow> conversation ! (length conversation - Suc 0) = last conversation"
  by (simp add: last_conv_nth)

lemma GenerateQuiz_message:
  assumes "GenerateQuiz s unm toLower now conversation noteIds = Inr m"
  shows "Role m = ''assistant'' \<and> Content m = ''Here's a quiz question based on your notes:''
     \<and> (\<exists>qd. Question m = Some qd)"
  using assms
  by (auto simp: GenerateQuiz_def generateQuizWithLLM_def Let_def
      split: if_splits sum.splits failure.splits)

lemma validateQuizRequest_None_iff:
  "validateQuizRequest req = None \<longleftrightarrow>
     req_Conversation req \<noteq> [] \<and> Role (last (req_Conversation req)) = ''user''
     \<and> Content (last (req_Conversation req)) \<noteq> []"
  by (auto simp: validateQuizRequest_def Let_def lastMessage_last)

text \<open>
  C2, as the code has it. The request is refused with status 400 when the conversation
  is empty, when the role of its last turn is not \<open>user\<close>, or when the content of its
  last turn is the empty string; the content is compared as it is, without trimming.
  Every other conversation passes. The refusal is the same for every handler, so it
  comes before any note is fetched and before the model is called. The service repeats
  the first two tests of its own, for every repository and model.
\<close>

theorem validateQuizRequest_exact:
  "(validateQuizRequest req = None \<longleftrightarrow>
      req_Conversation req \<noteq> [] \<and> Role (last (req_Conversation req)) = ''user''
      \<and> Content (last (req_Conversation req)) \<noteq> [])
   \<and> (req_Conversation req = [] \<longrightarrow>
        validateQuizRequest req = Some ''conversation cannot be empty'')
   \<and> (req_Conversation req \<noteq> [] \<longrightarrow> Role (last (req_Conversation req)) \<noteq> ''user'' \<longrightarrow>
        validateQuizRequest req = Some ''last message must be from user'')
   \<and> (req_Conversation req \<noteq> [] \<longrightarrow> Role (last (req_Conversation req)) = ''user'' \<longrightarrow>
        Content (last (req_Conversation req)) = [] \<longrightarrow>
        validateQuizRequest req = Some ''user message cannot be empty'')
   \<and> (validateQuizRequest req = Some e \<longrightarrow>
        QuizHandler_GenerateQuiz h unm toLower now generatedAt processingTimeMs (Some req) =
          Inr \<lparr>status = 400, body = ErrorBody e\<rparr>)
   \<and> GenerateQuiz s unm toLower now [] noteIds = Inl (Err ''conversation cannot be empty'')
   \<and> (conversation \<noteq> [] \<longrightarrow> Role (last conversation) \<noteq> ''user'' \<longrightarrow>
        GenerateQuiz s unm toLower now conversation noteIds = Inl (Err ''last message must be from user''))"
  by (auto simp: validateQuizRequest_def Let_def lastMessage_last QuizHandler_GenerateQuiz_def
      writeErrorResponse_def GenerateQuiz_def)

lemma stub_notes: "getNotesContent stubService [] =
    Inr (''Note 2: Channels'' @ separator @ ''Note 1: Go is typed'')"
  by (simp add: getNotesContent_def GetAllNotes_def stubService_def stubRepository_def
      noteEntry_def Itoa_def char_eval)

lemma stub_parse: "parseLLMResponse json_Unmarshal now stubCompletion noteIds =
    Inr \<lparr>ID = ''q_llm_'' @ Itoa now, Text = ''Q?'', Type = ''essay'', Options = [],
         CorrectAnswer = [], Explanation = [], Difficulty = ''hard'', BasedOnNotes = noteIds\<rparr>"
  by (simp add: stubCompletion_def parseLLMResponse_def slice_def json_eval)

lemma stub_generate:
  "generateQuizWithLLM stubService json_Unmarshal now notesContent difficulty questionType noteIds =
    Inr \<lparr>Role = ''assistant'', Content = ''Here's a quiz question based on your notes:'',
         Question = Some \<lparr>ID = ''q_llm_'' @ Itoa now, Text = ''Q?'', Type = ''essay'', Options = [],
           CorrectAnswer = [], Explanation = [], Difficulty = ''hard'',
           BasedOnNotes = noteIds\<rparr>\<rparr>"
  by (simp add: generateQuizWithLLM_def stub_parse) (simp add: stubService_def stub_parse)

text \<open>
  C2, as stated, fails: a last turn from the user whose content is one space is empty
  after trimming, yet the request passes the validation, and on the test double the
  generation succeeds with status 200.
\<close>

theorem whitespace_content_is_accepted:
  "TrimSpace (Content \<lparr>Role = ''user'', Content = '' '', Question = None\<rparr>) = []
   \<and> validateQuizRequest
        \<lparr>req_NoteIds = [], req_Conversation = [\<lparr>Role = ''user'', Content = '' '', Question = None\<rparr>],
         req_Difficulty = [], req_QuestionType = []\<rparr> = None
   \<and> QuizHandler_GenerateQuiz stubHandler json_Unmarshal lowerASCII 42 ''2026-01-01T00:00:00Z'' 5
        (Some \<lparr>req_NoteIds = [],
               req_Conversation = [\<lparr>Role = ''user'', Content = '' '', Question = None\<rparr>],
               req_Difficulty = [], req_QuestionType = []\<rparr>) =
       Inr \<lparr>status = 200,
            body = QuizBody
              \<lparr>Success = True,
               Data = \<lparr>Conversation =
                 [\<lparr>Role = ''user'', Content = '' '', Question = None\<rparr>,
                  \<lparr>Role = ''assistant'', Content = ''Here's a quiz question based on your notes:'',
                   Question = Some \<lparr>ID = ''q_llm_42'', Text = ''Q?'', Type = ''essay'',
                     Options = [], CorrectAnswer = [], Explanation = [], Difficulty = ''hard'',
                     BasedOnNotes = []\<rparr>\<rparr>]\<rparr>,
               Metadata = \<lparr>GeneratedAt = ''2026-01-01T00:00:00Z'', TokensUsed = 150,
                           ProcessingTimeMs = 5\<rparr>\<rparr>\<rparr>"
proof -
  have trim: "TrimSpace '' '' = []"
    by (simp add: TrimSpace_def isSpace_def)
  have i42: "Itoa 42 = ''42''"
    by (simp add: Itoa_def char_eval)
  have gen: "GenerateQuiz stubService json_Unmarshal lowerASCII 42
      [\<lparr>Role = ''user'', Content = '' '', Question = None\<rparr>] [] =
      Inr \<lparr>Role = ''assistant'', Content = ''Here's a quiz question based on your notes:'',
         Question = Some \<lparr>ID = ''q_llm_42'', Text = ''Q?'', Type = ''essay'', Options = [],
           CorrectAnswer = [], Explanation = [], Difficulty = ''hard'', BasedOnNotes = []\<rparr>\<rparr>"
    by (simp add: GenerateQuiz_def stub_notes stub_generate i42)
  show ?thesis
    by (simp add: trim validateQuizRequest_def QuizHandler_GenerateQuiz_def stubHandler_def gen)
qed

text \<open>The four outcomes of the validation, and the two refusals of the service.\<close>

theorem validateQuizRequest_exact_witness:
  "validateQuizRequest \<lparr>req_NoteIds = [], req_Conversation = [], req_Difficulty = [],
      req_QuestionType = []\<rparr> = Some ''conversation cannot be empty''
   \<and> QuizHandler_GenerateQuiz stubHandler json_Unmarshal lowerASCII 42 ''t'' 5
        (Some \<lparr>req_NoteIds = [], req_Conversation = [], req_Difficulty = [],
               req_QuestionType = []\<rparr>) =
       Inr \<lparr>status = 400, body = ErrorBody ''conversation cannot be empty''\<rparr>
   \<and> validateQuizRequest \<lparr>req_NoteIds = [],
        req_Conversation = [\<lparr>Role = ''assistant'', Content = ''hi'', Question = None\<rparr>],
        req_Difficulty = [], req_QuestionType = []\<rparr> = Some ''last message must be from user''
   \<and> validateQuizRequest \<lparr>req_NoteIds = [],
        req_Conversation = [\<lparr>Role = ''user'', Content = [], Question = None\<rparr>],
        req_Difficulty = [], req_QuestionType = []\<rparr> = Some ''user message cannot be empty''
   \<and> validateQuizRequest \<lparr>req_NoteIds = [],
        req_Conversation = [\<lparr>Role = ''user'', Content = ''hi'', Question = None\<rparr>],
        req_Difficulty = [], req_QuestionType = []\<rparr> = None
   \<and> GenerateQuiz stubService json_Unmarshal lowerASCII 42 [] [1] = Inl (Err ''conversation cannot be empty'')
   \<and> GenerateQuiz stubService json_Unmarshal lowerASCII 42
        [\<lparr>Role = ''assistant'', Content = ''hi'', Question = None\<rparr>] [1] =
       Inl (Err ''last message must be from user'')"
  using validateQuizRequest_exact
      [where req = "\<lparr>req_NoteIds = [], req_Conversation = [], req_Difficulty = [],
            req_QuestionType = []\<rparr>" and e = "''conversation cannot be empty''"
         and h = stubHandler and unm = json_Unmarshal and toLower = lowerASCII and now = 42 and generatedAt = "''t''"
         and processingTimeMs = 5 and s = stubService and noteIds = "[1]"
         and conversation = "[\<lparr>Role = ''assistant'', Content = ''hi'', Question = None\<rparr>]"]
    validateQuizRequest_exact
      [where req = "\<lparr>req_NoteIds = [],
            req_Conversation = [\<lparr>Role = ''assistant'', Content = ''hi'', Question = None\<rparr>],
            req_Difficulty = [], req_QuestionType = []\<rparr>"]
    validateQuizRequest_exact
      [where req = "\<lparr>req_NoteIds = [],
            req_Conversation = [\<lparr>Role = ''user'', Content = [], Question = None\<rparr>],
            req_Difficulty = [], req_QuestionType = []\<rparr>"]
    validateQuizRequest_exact
      [where req = "\<lparr>req_NoteIds = [],
            req_Conversation = [\<lparr>Role = ''user'', Content = ''hi'', Question = None\<rparr>],
            req_Difficulty = [], req_QuestionType = []\<rparr>"]
  by simp

lemma GenerateQuiz_stages:
  assumes "conversation \<noteq> []" and "Role (last conversation) = ''user''"
  shows "GenerateQuiz s unm toLower now conversation noteIds =
     (case getNotesContent s noteIds of
        Inl e \<Rightarrow> Inl (Err (''failed to retrieve notes: '' @ e))
      | Inr nc \<Rightarrow>
          (case llmClient s
                  (SYSTEM_PROMPT @ [CHR 0x0A, CHR 0x0A]
                   @ USER_PROMPT nc (extractDifficulty toLower (Content (last conversation)))
                       (extractQuestionType toLower (Content (last conversation)))) of
             Inl e \<Rightarrow>
               Inl (Err (''failed to generate quiz with LLM: LLM generation failed: '' @ e))
           | Inr completion \<Rightarrow>
               (case parseLLMResponse unm now completion noteIds of
                  Inl (Err e) \<Rightarrow>
                    Inl (Err (''failed to generate quiz with LLM: failed to parse LLM response: ''
                              @ e))
                | Inl (SliceBoundsPanic lo hi) \<Rightarrow> Inl (SliceBoundsPanic lo hi)
                | Inr qd \<Rightarrow>
                    Inr \<lparr>Role = ''assistant'',
                         Content = ''Here's a quiz question based on your notes:'',
                         Question = Some qd\<rparr>)))"
  using assms
  by (simp add: GenerateQuiz_def generateQuizWithLLM_def Let_def lastMessage_last
      split: sum.splits failure.splits)

lemma QuizHandler_GenerateQuiz_stages:
  assumes "validateQuizRequest req = None"
  shows "QuizHandler_GenerateQuiz h unm toLower now generatedAt processingTimeMs (Some req) =
     (case getNotesContent (service h) (req_NoteIds req) of
        Inl e \<Rightarrow>
          Inr \<lparr>status = 500,
               body = ErrorBody (''Failed to generate quiz: failed to retrieve notes: '' @ e)\<rparr>
      | Inr nc \<Rightarrow>
          (case llmClient (service h)
                  (SYSTEM_PROMPT @ [CHR 0x0A, CHR 0x0A]
                   @ USER_PROMPT nc
                       (extractDifficulty toLower (Content (last (req_Conversation req))))
                       (extractQuestionType toLower (Content (last (req_Conversation req))))) of
             Inl e \<Rightarrow>
               Inr \<lparr>status = 500,
                    body = ErrorBody
                      (''Failed to generate quiz: failed to generate quiz with LLM: LLM generation failed: ''
                       @ e)\<rparr>
           | Inr completion \<Rightarrow>
               (case parseLLMResponse unm now completion (req_NoteIds req) of
                  Inl (Err e) \<Rightarrow>
                    Inr \<lparr>status = 500,
                         body = ErrorBody
                           (''Failed to generate quiz: failed to generate quiz with LLM: failed to parse LLM response: ''
                            @ e)\<rparr>
                | Inl (SliceBoundsPanic lo hi) \<Rightarrow> Inl (SliceBoundsPanic lo hi)
                | Inr qd \<Rightarrow>
                    Inr \<lparr>status = 200,
                         body = QuizBody
                           \<lparr>Success = True,
                            Data = \<lparr>Conversation = req_Conversation req @
                              [\<lparr>Role = ''assistant'',
                                Content = ''Here's a quiz question based on your notes:'',
                                Question = Some qd\<rparr>]\<rparr>,
                            Metadata = \<lparr>GeneratedAt = generatedAt, TokensUsed = 150,
                                        ProcessingTimeMs = processingTimeMs\<rparr>\<rparr>\<rparr>)))"
proof -
  from assms have ne: "req_Conversation req \<noteq> []"
    and user: "Role (last (req_Conversation req)) = ''user''"
    by (simp_all add: validateQuizRequest_None_iff)
  note gen = GenerateQuiz_stages [OF ne user, of "service h" unm toLower now "req_NoteIds req"]
  show ?thesis
    using assms
    by (simp add: QuizHandler_GenerateQuiz_def gen writeErrorResponse_def
        split: sum.splits failure.splits)
qed

text \<open>
  C7. When the handler answers with a quiz body, the request was decoded and valid, the
  notes were aggregated, the model returned a completion, the extractor returned a
  question record for that completion and the identifiers of the request, and the
  conversation of the answer is the conversation of the request followed by exactly
  one message: role \<open>assistant\<close>, the fixed label as content, and that record.
  Conversely, on a valid request each stage decides the answer: when all three succeed
  the answer is that one, with status 200; when the extractor returns an error, when
  the model fails or when the aggregation fails, the answer is an error body with
  status 500, which has no conversation; when the extractor panics the handler gives
  no answer. An invalid request and an undecodable body are answered with an error
  body and status 400.
\<close>

theorem QuizHandler_GenerateQuiz_append_only:
  "(QuizHandler_GenerateQuiz h unm toLower now generatedAt processingTimeMs decoded = Inr resp \<longrightarrow>
      body resp = QuizBody q \<longrightarrow>
      (\<exists>req nc completion qd.
         decoded = Some req \<and> validateQuizRequest req = None
         \<and> getNotesContent (service h) (req_NoteIds req) = Inr nc
         \<and> llmClient (service h)
              (SYSTEM_PROMPT @ [CHR 0x0A, CHR 0x0A]
               @ USER_PROMPT nc
                   (extractDifficulty toLower (Content (last (req_Conversation req))))
                   (extractQuestionType toLower (Content (last (req_Conversation req)))))
             = Inr completion
         \<and> parseLLMResponse unm now completion (req_NoteIds req) = Inr qd
         \<and> Conversation (Data q) = req_Conversation req @
              [\<lparr>Role = ''assistant'', Content = ''Here's a quiz question based on your notes:'',
                Question = Some qd\<rparr>]
         \<and> status resp = 200))
   \<and> (validateQuizRequest req = None \<longrightarrow>
      getNotesContent (service h) (req_NoteIds req) = Inr nc \<longrightarrow>
      llmClient (service h)
        (SYSTEM_PROMPT @ [CHR 0x0A, CHR 0x0A]
         @ USER_PROMPT nc
             (extractDifficulty toLower (Content (last (req_Conversation req))))
             (extractQuestionType toLower (Content (last (req_Conversation req)))))
        = Inr completion \<longrightarrow>
      (parseLLMResponse unm now completion (req_NoteIds req) = Inr qd \<longrightarrow>
         QuizHandler_GenerateQuiz h unm toLower now generatedAt processingTimeMs (Some req) =
           Inr \<lparr>status = 200,
                body = QuizBody
                  \<lparr>Success = True,
                   Data = \<lparr>Conversation = req_Conversation req @
                     [\<lparr>Role = ''assistant'',
                       Content = ''Here's a quiz question based on your notes:'',
                       Question = Some qd\<rparr>]\<rparr>,
                   Metadata = \<lparr>GeneratedAt = generatedAt, TokensUsed = 150,
                               ProcessingTimeMs = processingTimeMs\<rparr>\<rparr>\<rparr>)
      \<and> (parseLLMResponse unm now completion (req_NoteIds req) = Inl (Err e) \<longrightarrow>
         QuizHandler_GenerateQuiz h unm toLower now generatedAt processingTimeMs (Some req) =
           Inr \<lparr>status = 500,
                body = ErrorBody
                  (''Failed to generate quiz: failed to generate quiz with LLM: failed to parse LLM response: ''
                   @ e)\<rparr>)
      \<and> (parseLLMResponse unm now completion (req_NoteIds req) = Inl (SliceBoundsPanic lo hi) \<longrightarrow>
         QuizHandler_GenerateQuiz h unm toLower now generatedAt processingTimeMs (Some req) =
           Inl (SliceBoundsPanic lo hi)))
   \<and> (validateQuizRequest req = None \<longrightarrow>
      getNotesContent (service h) (req_NoteIds req) = Inr nc \<longrightarrow>
      llmClient (service h)
        (SYSTEM_PROMPT @ [CHR 0x0A, CHR 0x0A]
         @ USER_PROMPT nc
             (extractDifficulty toLower (Content (last (req_Conversation req))))
             (extractQuestionType toLower (Content (last (req_Conversation req)))))
        = Inl e \<longrightarrow>
      QuizHandler_GenerateQuiz h unm toLower now generatedAt processingTimeMs (Some req) =
        Inr \<lparr>status = 500,
             body = ErrorBody
               (''Failed to generate quiz: failed to generate quiz with LLM: LLM generation failed: ''
                @ e)\<rparr>)
   \<and> (validateQuizRequest req = None \<longrightarrow>
      getNotesContent (service h) (req_NoteIds req) = Inl e \<longrightarrow>
      QuizHandler_GenerateQuiz h unm toLower now generatedAt processingTimeMs (Some req) =
        Inr \<lparr>status = 500,
             body = ErrorBody (''Failed to generate quiz: failed to retrieve notes: '' @ e)\<rparr>)
   \<and> (validateQuizRequest req = Some e \<longrightarrow>
      QuizHandler_GenerateQuiz h unm toLower now generatedAt processingTimeMs (Some req) =
        Inr \<lparr>status = 400, body = ErrorBody e\<rparr>)
   \<and> QuizHandler_GenerateQuiz h unm toLower now generatedAt processingTimeMs None =
        Inr \<lparr>status = 400, body = ErrorBody ''Invalid JSON payload''\<rparr>"
proof -
  note stages = QuizHandler_GenerateQuiz_stages
    [of _ h unm toLower now generatedAt processingTimeMs]
  have only_if:
    "\<exists>req nc completion qd.
         decoded = Some req \<and> validateQuizRequest req = None
         \<and> getNotesContent (service h) (req_NoteIds req) = Inr nc
         \<and> llmClient (service h)
              (SYSTEM_PROMPT @ [CHR 0x0A, CHR 0x0A]
               @ USER_PROMPT nc
                   (extractDifficulty toLower (Content (last (req_Conversation req))))
                   (extractQuestionType toLower (Content (last (req_Conversation req)))))
             = Inr completion
         \<and> parseLLMResponse unm now completion (req_NoteIds req) = Inr qd
         \<and> Conversation (Data q) = req_Conversation req @
              [\<lparr>Role = ''assistant'', Content = ''Here's a quiz question based on your notes:'',
                Question = Some qd\<rparr>]
         \<and> status resp = 200"
    if run: "QuizHandler_GenerateQuiz h unm toLower now generatedAt processingTimeMs decoded = Inr resp"
      and quiz: "body resp = QuizBody q"
  proof -
    from run quiz obtain r where dec: "decoded = Some r"
      by (cases decoded) (auto simp: QuizHandler_GenerateQuiz_def writeErrorResponse_def)
    from run quiz dec have val: "validateQuizRequest r = None"
      by (cases "validateQuizRequest r")
        (auto simp: QuizHandler_GenerateQuiz_def writeErrorResponse_def)
    from run quiz show ?thesis
      unfolding dec stages [OF val]
      using val
      by (auto split: sum.splits failure.splits)
  qed
  have ok: "QuizHandler_GenerateQuiz h unm toLower now generatedAt processingTimeMs (Some req) =
           Inr \<lparr>status = 200,
                body = QuizBody
                  \<lparr>Success = True,
                   Data = \<lparr>Conversation = req_Conversation req @
                     [\<lparr>Role = ''assistant'',
                       Content = ''Here's a quiz question based on your notes:'',
                       Question = Some qd\<rparr>]\<rparr>,
                   Metadata = \<lparr>GeneratedAt = generatedAt, TokensUsed = 150,
                               ProcessingTimeMs = processingTimeMs\<rparr>\<rparr>\<rparr>"
    if "validateQuizRequest req = None"
      "getNotesContent (service h) (req_NoteIds req) = Inr nc"
      "llmClient (service h)
        (SYSTEM_PROMPT @ [CHR 0x0A, CHR 0x0A]
         @ USER_PROMPT nc
             (extractDifficulty toLower (Content (last (req_Conversation req))))
             (extractQuestionType toLower (Content (last (req_Conversation req)))))
        = Inr completion"
      "parseLLMResponse unm now completion (req_NoteIds req) = Inr qd"
    unfolding stages [OF that(1)] using that(2-4) by simp
  have parse_err: "QuizHandler_GenerateQuiz h unm toLower now generatedAt processingTimeMs (Some req) =
           Inr \<lparr>status = 500,
                body = ErrorBody
                  (''Failed to generate quiz: failed to generate quiz with LLM: failed to parse LLM response: ''
                   @ e)\<rparr>"
    if "validateQuizRequest req = None"
      "getNotesContent (service h) (req_NoteIds req) = Inr nc"
      "llmClient (service h)
        (SYSTEM_PROMPT @ [CHR 0x0A, CHR 0x0A]
         @ USER_PROMPT nc
             (extractDifficulty toLower (Content (last (req_Conversation req))))
             (extractQuestionType toLower (Content (last (req_Conversation req)))))
        = Inr completion"
      "parseLLMResponse unm now completion (req_NoteIds req) = Inl (Err e)"
    unfolding stages [OF that(1)] using that(2-4) by simp
  have parse_panic: "QuizHandler_GenerateQuiz h unm toLower now generatedAt processingTimeMs (Some req) =
           Inl (SliceBoundsPanic lo hi)"
    if "validateQuizRequest req = None"
      "getNotesContent (service h) (req_NoteIds req) = Inr nc"
      "llmClient (service h)
        (SYSTEM_PROMPT @ [CHR 0x0A, CHR 0x0A]
         @ USER_PROMPT nc
             (extractDifficulty toLower (Content (last (req_Conversation req))))
             (extractQuestionType toLower (Content (last (req_Conversation req)))))
        = Inr completion"
      "parseLLMResponse unm now completion (req_NoteIds req) = Inl (SliceBoundsPanic lo hi)"
    unfolding stages [OF that(1)] using that(2-4) by simp
  have model_err: "QuizHandler_GenerateQuiz h unm toLower now generatedAt processingTimeMs (Some req) =
        Inr \<lparr>status = 500,
             body = ErrorBody
               (''Failed to generate quiz: failed to generate quiz with LLM: LLM generation failed: ''
                @ e)\<rparr>"
    if "validateQuizRequest req = None"
      "getNotesContent (service h) (req_NoteIds req) = Inr nc"
      "llmClient (service h)
        (SYSTEM_PROMPT @ [CHR 0x0A, CHR 0x0A]
         @ USER_PROMPT nc
             (extractDifficulty toLower (Content (last (req_Conversation req))))
             (extractQuestionType toLower (Content (last (req_Conversation req)))))
        = Inl e"
    unfolding stages [OF that(1)] using that(2-3) by simp
  have notes_err: "QuizHandler_GenerateQuiz h unm toLower now generatedAt processingTimeMs (Some req) =
        Inr \<lparr>status = 500,
             body = ErrorBody (''Failed to generate quiz: failed to retrieve notes: '' @ e)\<rparr>"
    if "validateQuizRequest req = None"
      "getNotesContent (service h) (req_NoteIds req) = Inl e"
    unfolding stages [OF that(1)] using that(2) by simp
  have invalid: "QuizHandler_GenerateQuiz h unm toLower now generatedAt processingTimeMs (Some req) =
        Inr \<lparr>status = 400, body = ErrorBody e\<rparr>"
    if "validateQuizRequest req = Some e"
    using that by (simp add: QuizHandler_GenerateQuiz_def writeErrorResponse_def)
  have undecoded: "QuizHandler_GenerateQuiz h unm toLower now generatedAt processingTimeMs None =
        Inr \<lparr>status = 400, body = ErrorBody ''Invalid JSON payload''\<rparr>"
    by (simp add: QuizHandler_GenerateQuiz_def writeErrorResponse_def)
  show ?thesis
    by (intro conjI impI only_if ok parse_err parse_panic model_err notes_err invalid undecoded)
qed

text \<open>
  On the test double. The request for a hard essay question over all notes is answered
  with a conversation of two turns, the second carrying the record that the extractor
  returns for the completion of the model. The same request over the unknown note 7
  fails in the aggregation; with a model that fails, with a completion without braces
  and with the completion \<open>} {\<close> it fails in the model, in the extractor, and by a
  panic of the extractor; an empty conversation is refused.
\<close>

theorem QuizHandler_GenerateQuiz_append_only_witness:
  "QuizHandler_GenerateQuiz stubHandler json_Unmarshal lowerASCII 42 ''t'' 5
        (Some \<lparr>req_NoteIds = [],
               req_Conversation =
                 [\<lparr>Role = ''user'', Content = ''Give me a hard essay question'',
                   Question = None\<rparr>],
               req_Difficulty = [], req_QuestionType = []\<rparr>) =
       Inr \<lparr>status = 200,
            body = QuizBody
              \<lparr>Success = True,
               Data = \<lparr>Conversation =
                 [\<lparr>Role = ''user'', Content = ''Give me a hard essay question'',
                   Question = None\<rparr>,
                  \<lparr>Role = ''assistant'', Content = ''Here's a quiz question based on your notes:'',
                   Question = Some \<lparr>ID = ''q_llm_42'', Text = ''Q?'', Type = ''essay'',
                     Options = [], CorrectAnswer = [], Explanation = [], Difficulty = ''hard'',
                     BasedOnNotes = []\<rparr>\<rparr>]\<rparr>,
               Metadata = \<lparr>GeneratedAt = ''t'', TokensUsed = 150, ProcessingTimeMs = 5\<rparr>\<rparr>\<rparr>
   \<and> (\<exists>nc completion qd.
        getNotesContent stubService [] = Inr nc
        \<and> llmClient stubService
             (SYSTEM_PROMPT @ [CHR 0x0A, CHR 0x0A] @ USER_PROMPT nc ''hard'' ''essay'') = Inr completion
        \<and> parseLLMResponse json_Unmarshal 42 completion [] = Inr qd
        \<and> qd = \<lparr>ID = ''q_llm_42'', Text = ''Q?'', Type = ''essay'', Options = [],
                  CorrectAnswer = [], Explanation = [], Difficulty = ''hard'', BasedOnNotes = []\<rparr>)
   \<and> QuizHandler_GenerateQuiz stubHandler json_Unmarshal lowerASCII 42 ''t'' 5
        (Some \<lparr>req_NoteIds = [7],
               req_Conversation =
                 [\<lparr>Role = ''user'', Content = ''Give me a hard essay question'',
                   Question = None\<rparr>],
               req_Difficulty = [], req_QuestionType = []\<rparr>) =
       Inr \<lparr>status = 500,
            body = ErrorBody ''Failed to generate quiz: failed to retrieve notes: no notes found''\<rparr>
   \<and> QuizHandler_GenerateQuiz
        \<lparr>service = stubService\<lparr>llmClient := (\<lambda>prompt. Inl ''timeout'')\<rparr>\<rparr>
        json_Unmarshal lowerASCII 42 ''t'' 5
        (Some \<lparr>req_NoteIds = [],
               req_Conversation =
                 [\<lparr>Role = ''user'', Content = ''Give me a hard essay question'',
                   Question = None\<rparr>],
               req_Difficulty = [], req_QuestionType = []\<rparr>) =
       Inr \<lparr>status = 500,
            body = ErrorBody
              ''Failed to generate quiz: failed to generate quiz with LLM: LLM generation failed: timeout''\<rparr>
   \<and> QuizHandler_GenerateQuiz
        \<lparr>service = stubService\<lparr>llmClient := (\<lambda>prompt. Inr ''not json at all'')\<rparr>\<rparr>
        json_Unmarshal lowerASCII 42 ''t'' 5
        (Some \<lparr>req_NoteIds = [],
               req_Conversation =
                 [\<lparr>Role = ''user'', Content = ''Give me a hard essay question'',
                   Question = None\<rparr>],
               req_Difficulty = [], req_QuestionType = []\<rparr>) =
       Inr \<lparr>status = 500,
            body = ErrorBody
              ''Failed to generate quiz: failed to generate quiz with LLM: failed to parse LLM response: no valid JSON found in response''\<rparr>
   \<and> QuizHandler_GenerateQuiz
        \<lparr>service = stubService\<lparr>llmClient := (\<lambda>prompt. Inr ''} {'')\<rparr>\<rparr>
        json_Unmarshal lowerASCII 42 ''t'' 5
        (Some \<lparr>req_NoteIds = [],
               req_Conversation =
                 [\<lparr>Role = ''user'', Content = ''Give me a hard essay question'',
                   Question = None\<rparr>],
               req_Difficulty = [], req_QuestionType = []\<rparr>) =
       Inl (SliceBoundsPanic 2 1)
   \<and> QuizHandler_GenerateQuiz stubHandler json_Unmarshal lowerASCII 42 ''t'' 5
        (Some \<lparr>req_NoteIds = [], req_Conversation = [], req_Difficulty = [],
               req_QuestionType = []\<rparr>) =
       Inr \<lparr>status = 400, body = ErrorBody ''conversation cannot be empty''\<rparr>"
proof -
  let ?u = "\<lparr>Role = ''user'', Content = ''Give me a hard essay question'', Question = None\<rparr>"
  let ?req0 = "\<lparr>req_NoteIds = [], req_Conversation = [?u], req_Difficulty = [],
      req_QuestionType = []\<rparr>"
  let ?req7 = "\<lparr>req_NoteIds = [7], req_Conversation = [?u], req_Difficulty = [],
      req_QuestionType = []\<rparr>"
  let ?reqE = "\<lparr>req_NoteIds = [], req_Conversation = [], req_Difficulty = [],
      req_QuestionType = []\<rparr> :: QuizRequest"
  let ?nc = "''Note 2: Channels'' @ separator @ ''Note 1: Go is typed''"
  let ?qd = "\<lparr>ID = ''q_llm_42'', Text = ''Q?'', Type = ''essay'', Options = [],
      CorrectAnswer = [], Explanation = [], Difficulty = ''hard'', BasedOnNotes = []\<rparr>"
  let ?hT = "\<lparr>service = stubService\<lparr>llmClient := (\<lambda>prompt. Inl ''timeout'')\<rparr>\<rparr>"
  let ?hP = "\<lparr>service = stubService\<lparr>llmClient := (\<lambda>prompt. Inr ''not json at all'')\<rparr>\<rparr>"
  let ?hR = "\<lparr>service = stubService\<lparr>llmClient := (\<lambda>prompt. Inr ''} {'')\<rparr>\<rparr>"
  have val0: "validateQuizRequest ?req0 = None" and val7: "validateQuizRequest ?req7 = None"
    and valE: "validateQuizRequest ?reqE = Some ''conversation cannot be empty''"
    by (simp_all add: validateQuizRequest_def)
  have all_notes: "getNotesContent (service h) (req_NoteIds ?req0) = Inr ?nc"
    if "noteService (service h) = noteService stubService" for h
    using that stub_notes by (simp add: getNotesContent_def)
  have notes0: "getNotesContent (service stubHandler) (req_NoteIds ?req0) = Inr ?nc"
    and notesT: "getNotesContent (service ?hT) (req_NoteIds ?req0) = Inr ?nc"
    and notesP: "getNotesContent (service ?hP) (req_NoteIds ?req0) = Inr ?nc"
    and notesR: "getNotesContent (service ?hR) (req_NoteIds ?req0) = Inr ?nc"
    by (rule all_notes, simp add: stubHandler_def)+
  have notes7: "getNotesContent (service stubHandler) (req_NoteIds ?req7) = Inl ''no notes found''"
    by (simp add: stubHandler_def getNotesContent_ids resolved_Cons resolved_Nil stub_GetNoteByID)
  have llm0: "llmClient (service stubHandler) p = Inr stubCompletion"
    and llmT: "llmClient (service ?hT) p = Inl ''timeout''"
    and llmP: "llmClient (service ?hP) p = Inr ''not json at all''"
    and llmR: "llmClient (service ?hR) p = Inr ''} {''" for p
    by (simp_all add: stubHandler_def stubService_def)
  have i42: "Itoa 42 = ''42''"
    by (simp add: Itoa_def char_eval)
  have parse0: "parseLLMResponse json_Unmarshal 42 stubCompletion (req_NoteIds ?req0) = Inr ?qd"
    by (simp add: stub_parse i42)
  have parseP: "parseLLMResponse json_Unmarshal 42 ''not json at all'' (req_NoteIds ?req0) =
      Inl (Err ''no valid JSON found in response'')"
    by (simp add: parseLLMResponse_no_brace)
  have parseR: "parseLLMResponse json_Unmarshal 42 ''} {'' (req_NoteIds ?req0) =
      Inl (SliceBoundsPanic 2 1)"
    by (simp add: parseLLMResponse_def slice_def)
  note at0 = QuizHandler_GenerateQuiz_append_only
    [where h = stubHandler and unm = json_Unmarshal and toLower = lowerASCII and now = 42
       and generatedAt = "''t''" and processingTimeMs = 5 and req = ?req0 and nc = ?nc
       and completion = stubCompletion and qd = ?qd]
  note ok = at0 [THEN conjunct2, THEN conjunct1, THEN mp, OF val0, THEN mp, OF notes0,
      THEN mp, OF llm0, THEN conjunct1, THEN mp, OF parse0]
  note at7 = QuizHandler_GenerateQuiz_append_only
    [where h = stubHandler and unm = json_Unmarshal and toLower = lowerASCII and now = 42
       and generatedAt = "''t''" and processingTimeMs = 5 and req = ?req7
       and e = "''no notes found''"]
  note notes_err = at7 [THEN conjunct2, THEN conjunct2, THEN conjunct2, THEN conjunct1,
      THEN mp, OF val7, THEN mp, OF notes7]
  note atT = QuizHandler_GenerateQuiz_append_only
    [where h = ?hT and unm = json_Unmarshal and toLower = lowerASCII and now = 42
       and generatedAt = "''t''" and processingTimeMs = 5 and req = ?req0 and nc = ?nc
       and e = "''timeout''"]
  note model_err = atT [THEN conjunct2, THEN conjunct2, THEN conjunct1,
      THEN mp, OF val0, THEN mp, OF notesT, THEN mp, OF llmT]
  note atP = QuizHandler_GenerateQuiz_append_only
    [where h = ?hP and unm = json_Unmarshal and toLower = lowerASCII and now = 42
       and generatedAt = "''t''" and processingTimeMs = 5 and req = ?req0 and nc = ?nc
       and completion = "''not json at all''" and e = "''no valid JSON found in response''"]
  note parse_err = atP [THEN conjunct2, THEN conjunct1, THEN mp, OF val0, THEN mp, OF notesP,
      THEN mp, OF llmP, THEN conjunct2, THEN conjunct1, THEN mp, OF parseP]
  note atR = QuizHandler_GenerateQuiz_append_only
    [where h = ?hR and unm = json_Unmarshal and toLower = lowerASCII and now = 42
       and generatedAt = "''t''" and processingTimeMs = 5 and req = ?req0 and nc = ?nc
       and completion = "''} {''" and lo = 2 and hi = 1]
  note parse_panic = atR [THEN conjunct2, THEN conjunct1, THEN mp, OF val0, THEN mp, OF notesR,
      THEN mp, OF llmR, THEN conjunct2, THEN conjunct2, THEN mp, OF parseR]
  note atE = QuizHandler_GenerateQuiz_append_only
    [where h = stubHandler and unm = json_Unmarshal and toLower = lowerASCII and now = 42
       and generatedAt = "''t''" and processingTimeMs = 5 and req = ?reqE
       and e = "''conversation cannot be empty''"]
  note invalid = atE [THEN conjunct2, THEN conjunct2, THEN conjunct2, THEN conjunct2,
      THEN conjunct1, THEN mp, OF valE]
  have body_ok: "body \<lparr>status = 200,
            body = QuizBody
              \<lparr>Success = True,
               Data = \<lparr>Conversation = req_Conversation ?req0 @
                 [\<lparr>Role = ''assistant'', Content = ''Here's a quiz question based on your notes:'',
                   Question = Some ?qd\<rparr>]\<rparr>,
               Metadata = \<lparr>GeneratedAt = ''t'', TokensUsed = 150, ProcessingTimeMs = 5\<rparr>\<rparr>\<rparr>
      = QuizBody
              \<lparr>Success = True,
               Data = \<lparr>Conversation = req_Conversation ?req0 @
                 [\<lparr>Role = ''assistant'', Content = ''Here's a quiz question based on your notes:'',
                   Question = Some ?qd\<rparr>]\<rparr>,
               Metadata = \<lparr>GeneratedAt = ''t'', TokensUsed = 150, ProcessingTimeMs = 5\<rparr>\<rparr>"
    by simp
  note only_if = QuizHandler_GenerateQuiz_append_only
    [where h = stubHandler and unm = json_Unmarshal and toLower = lowerASCII and now = 42
       and generatedAt = "''t''" and processingTimeMs = 5 and decoded = "Some ?req0",
     THEN conjunct1, THEN mp, OF ok, THEN mp, OF body_ok]
  have diff: "extractDifficulty lowerASCII ''Give me a hard essay question'' = ''hard''"
    and qtype: "extractQuestionType lowerASCII ''Give me a hard essay question'' = ''essay''"
    by (simp_all add: extractDifficulty_def extractQuestionType_def Contains_def
        lowerASCII_def lowerByte_def char_eval)
  from only_if obtain nc completion qd where
    a: "getNotesContent (service stubHandler) [] = Inr nc"
    and b: "llmClient (service stubHandler)
         (SYSTEM_PROMPT @ [CHR 0x0A, CHR 0x0A]
          @ USER_PROMPT nc (extractDifficulty lowerASCII ''Give me a hard essay question'')
              (extractQuestionType lowerASCII ''Give me a hard essay question'')) = Inr completion"
    and c: "parseLLMResponse json_Unmarshal 42 completion [] = Inr qd"
    and d: "qd = ?qd"
    by auto
  from a b c d have stages: "\<exists>nc completion qd.
        getNotesContent stubService [] = Inr nc
        \<and> llmClient stubService
             (SYSTEM_PROMPT @ [CHR 0x0A, CHR 0x0A] @ USER_PROMPT nc ''hard'' ''essay'') = Inr completion
        \<and> parseLLMResponse json_Unmarshal 42 completion [] = Inr qd
        \<and> qd = ?qd"
    unfolding diff qtype by (auto simp: stubHandler_def)
  from ok stages notes_err model_err parse_err parse_panic invalid show ?thesis
    by simp
qed

end
